theory Spec2Isabelle
  imports Complex_Main "HOL-Library.Word"
begin

unbundle bit_operations_syntax

section \<open>Data model of the renderer (VideoCommon/RenderBase)\<close>

text \<open>
  Unsigned machine integers of the source are words, so that \<open>+\<close>, \<open>*\<close> and \<open>div\<close>
  behave as the C++ operators do on \<open>u32\<close>, \<open>u64\<close> and \<open>size_t\<close>. Signed \<open>int\<close>
  values (rectangle edges, backbuffer sizes, the frame counter) are \<open>int\<close>: signed
  overflow is undefined in C++ and no operation of the source relies on it.
\<close>

type_synonym u32 = "32 word"
type_synonym u64 = "64 word"

section \<open>Binary floating point\<close>

text \<open>
  \<open>float\<close> and \<open>double\<close> are the IEEE 754 formats binary32 and binary64. The operations
  round to nearest, ties to even, and an expression of type \<open>float\<close> is evaluated in
  \<open>float\<close> (SSE arithmetic; the D3D backend is built for x86-64). A value is a finite
  number \<open>Finite s m\<close>, given by its sign \<open>s\<close> (\<open>True\<close> for negative) and its magnitude
  \<open>\<bar>m\<bar>\<close>, an infinity with its sign, or a NaN; the two zeros are \<open>Finite False 0\<close> and
  \<open>Finite True 0\<close>. A format is
  given by its precision \<open>p\<close> (24 or 53 significant bits) and its largest exponent \<open>emax\<close>
  (127 or 1023). The conversion of a \<open>float\<close> to \<open>double\<close> is exact and keeps the value.
\<close>

datatype fp = Finite bool real | Infinite bool | NaN

text \<open>
  The number of bits of a natural number, and, for \<open>0 < x\<close>, the exponent \<open>e\<close> with
  \<open>2 powi e \<le> x < 2 powi (e + 1)\<close>.
\<close>

fun bit_length :: "nat \<Rightarrow> nat" where
  "bit_length n = (if n = 0 then 0 else Suc (bit_length (n div 2)))"

declare bit_length.simps [simp del]

definition ilog2 :: "real \<Rightarrow> int" where
  "ilog2 x = (if 1 \<le> x then int (bit_length (nat \<lfloor>x\<rfloor>)) - 1
              else - int (bit_length (nat (\<lceil>1 / x\<rceil> - 1))))"

text \<open>Rounding to the nearest integer, a tie to the even one.\<close>

definition round_half_even :: "real \<Rightarrow> int" where
  "round_half_even y =
     (let f = \<lfloor>y\<rfloor>; d = y - of_int f
      in if d < 1 / 2 then f else if 1 / 2 < d then f + 1 else if even f then f else f + 1)"

text \<open>
  The rounding of a magnitude \<open>0 \<le> x\<close> to the format: to a multiple of the quantum
  (the unit in the last place) of the binade of \<open>x\<close>, where the numbers below
  \<open>2 powi (1 - emax)\<close>, the subnormal ones, share the quantum of the smallest binade.
  The result overflows to an infinity when it reaches \<open>2 powi (emax + 1)\<close>.
\<close>

definition round_magnitude :: "nat \<Rightarrow> int \<Rightarrow> real \<Rightarrow> real" where
  "round_magnitude p emax x =
     (if x = 0 then 0
      else (let e = max (ilog2 x) (1 - emax);
                quantum = 2 powi (e - int p + 1)
            in of_int (round_half_even (x / quantum)) * quantum))"

definition fp_round :: "nat \<Rightarrow> int \<Rightarrow> bool \<Rightarrow> real \<Rightarrow> fp" where
  "fp_round p emax sign x =
     (let r = round_magnitude p emax x
      in if 2 powi (emax + 1) \<le> r then Infinite sign else Finite sign r)"

text \<open>The real number that a finite value stands for.\<close>

fun fp_value :: "fp \<Rightarrow> real" where
  "fp_value (Finite s m) = (if s then - \<bar>m\<bar> else \<bar>m\<bar>)"
| "fp_value (Infinite s) = 0"
| "fp_value NaN = 0"

text \<open>
  Multiplication, division and subtraction: the exact result, rounded; with a zero, an
  infinity or a NaN as IEEE 754 has it (\<open>x / 0\<close> is an infinity, \<open>0 / 0\<close> a NaN, an exact
  difference of zero is \<open>+0\<close> except for \<open>-0 - +0\<close>).
\<close>

fun fp_mul :: "nat \<Rightarrow> int \<Rightarrow> fp \<Rightarrow> fp \<Rightarrow> fp" where
  "fp_mul p emax (Finite s m) (Finite t n) = fp_round p emax (s \<noteq> t) (\<bar>m\<bar> * \<bar>n\<bar>)"
| "fp_mul p emax (Finite s m) (Infinite t) = (if m = 0 then NaN else Infinite (s \<noteq> t))"
| "fp_mul p emax (Infinite s) (Finite t n) = (if n = 0 then NaN else Infinite (s \<noteq> t))"
| "fp_mul p emax (Infinite s) (Infinite t) = Infinite (s \<noteq> t)"
| "fp_mul p emax NaN b = NaN"
| "fp_mul p emax a NaN = NaN"

fun fp_div :: "nat \<Rightarrow> int \<Rightarrow> fp \<Rightarrow> fp \<Rightarrow> fp" where
  "fp_div p emax (Finite s m) (Finite t n) =
     (if n = 0 then (if m = 0 then NaN else Infinite (s \<noteq> t))
      else fp_round p emax (s \<noteq> t) (\<bar>m\<bar> / \<bar>n\<bar>))"
| "fp_div p emax (Finite s m) (Infinite t) = Finite (s \<noteq> t) 0"
| "fp_div p emax (Infinite s) (Finite t n) = Infinite (s \<noteq> t)"
| "fp_div p emax (Infinite s) (Infinite t) = NaN"
| "fp_div p emax NaN b = NaN"
| "fp_div p emax a NaN = NaN"

fun fp_sub :: "nat \<Rightarrow> int \<Rightarrow> fp \<Rightarrow> fp \<Rightarrow> fp" where
  "fp_sub p emax (Finite s m) (Finite t n) =
     (let r = fp_value (Finite s m) - fp_value (Finite t n)
      in if r = 0 then Finite (s \<and> \<not> t) 0 else fp_round p emax (r < 0) \<bar>r\<bar>)"
| "fp_sub p emax (Finite s m) (Infinite t) = Infinite (\<not> t)"
| "fp_sub p emax (Infinite s) (Finite t n) = Infinite s"
| "fp_sub p emax (Infinite s) (Infinite t) = (if s = t then NaN else Infinite s)"
| "fp_sub p emax NaN b = NaN"
| "fp_sub p emax a NaN = NaN"

text \<open>
  The comparisons \<open><\<close>, \<open>==\<close>, \<open>>\<close> and \<open>>=\<close>: false when an operand is a NaN; the two zeros
  are equal.
\<close>

fun fp_less :: "fp \<Rightarrow> fp \<Rightarrow> bool" where
  "fp_less (Finite s m) (Finite t n) = (fp_value (Finite s m) < fp_value (Finite t n))"
| "fp_less (Finite s m) (Infinite t) = (\<not> t)"
| "fp_less (Infinite s) (Finite t n) = s"
| "fp_less (Infinite s) (Infinite t) = (s \<and> \<not> t)"
| "fp_less NaN b = False"
| "fp_less a NaN = False"

fun fp_equal :: "fp \<Rightarrow> fp \<Rightarrow> bool" where
  "fp_equal (Finite s m) (Finite t n) = (fp_value (Finite s m) = fp_value (Finite t n))"
| "fp_equal (Infinite s) (Infinite t) = (s = t)"
| "fp_equal a b = False"

definition fp_greater :: "fp \<Rightarrow> fp \<Rightarrow> bool" where
  "fp_greater a b = fp_less b a"

definition fp_greater_equal :: "fp \<Rightarrow> fp \<Rightarrow> bool" where
  "fp_greater_equal a b = (fp_less b a \<or> fp_equal a b)"

text \<open>
  \<open>std::ceil\<close> and \<open>std::round\<close> (halves away from zero): the result is exact and keeps the
  sign of the operand.
\<close>

fun fp_ceil :: "fp \<Rightarrow> fp" where
  "fp_ceil (Finite s m) = Finite s \<bar>of_int \<lceil>fp_value (Finite s m)\<rceil>\<bar>"
| "fp_ceil a = a"

fun fp_round_away :: "fp \<Rightarrow> fp" where
  "fp_round_away (Finite s m) = Finite s (of_int \<lfloor>\<bar>m\<bar> + 1 / 2\<rfloor>)"
| "fp_round_away a = a"

text \<open>
  \<open>static_cast<int>\<close> truncates towards zero. C++ leaves the conversion undefined when
  the truncated value is not an \<open>int\<close> (of 32 bits) or the operand is an infinity or a
  NaN: \<open>fp_truncate\<close> is \<open>None\<close> there, and \<open>fp_to_int\<close> takes \<open>INT_MIN\<close>, the value
  that the conversion instruction of x86 returns. What is stated below about the
  result of a conversion is stated where \<open>fp_truncate\<close> is not \<open>None\<close>.
\<close>

definition INT_MIN :: int where
  "INT_MIN = - (2 ^ 31)"

definition INT_MAX :: int where
  "INT_MAX = 2 ^ 31 - 1"

fun fp_truncate :: "fp \<Rightarrow> int option" where
  "fp_truncate (Finite s m) =
     (let n = (if s then - \<lfloor>\<bar>m\<bar>\<rfloor> else \<lfloor>\<bar>m\<bar>\<rfloor>)
      in if INT_MIN \<le> n \<and> n \<le> INT_MAX then Some n else None)"
| "fp_truncate a = None"

definition fp_to_int :: "fp \<Rightarrow> int" where
  "fp_to_int a = (case fp_truncate a of Some n \<Rightarrow> n | None \<Rightarrow> INT_MIN)"

text \<open>The operations on \<open>float\<close> and on \<open>double\<close>, and \<open>static_cast<float>\<close> of an \<open>int\<close>.\<close>

definition float_of_int :: "int \<Rightarrow> fp" where
  "float_of_int n = fp_round 24 127 (n < 0) \<bar>of_int n\<bar>"

definition float_mul :: "fp \<Rightarrow> fp \<Rightarrow> fp" where
  "float_mul = fp_mul 24 127"

definition float_div :: "fp \<Rightarrow> fp \<Rightarrow> fp" where
  "float_div = fp_div 24 127"

definition float_sub :: "fp \<Rightarrow> fp \<Rightarrow> fp" where
  "float_sub = fp_sub 24 127"

definition double_div :: "fp \<Rightarrow> fp \<Rightarrow> fp" where
  "double_div = fp_div 53 1023"

definition double_sub :: "fp \<Rightarrow> fp \<Rightarrow> fp" where
  "double_sub = fp_sub 53 1023"

section \<open>Configuration, collaborators and state\<close>

datatype AspectMode = Auto | AnalogWide | Analog | Stretch

datatype StereoMode = Off | SBS | TAB | Anaglyph | QuadBuffer | Nvidia3DVision

text \<open>The fields of \<open>g_ActiveConfig\<close> that RenderBase.cpp reads.\<close>

record VideoConfig =
  aspect_mode :: AspectMode
  suggested_aspect_mode :: AspectMode
  bCrop :: bool
  bWidescreenHack :: bool
  stereo_mode :: StereoMode
  iMultisamples :: u32
  iMaxAnisotropy :: int
  bForceFiltering :: bool
  bVSyncActive :: bool
  bBBoxEnable :: bool
  iEFBScale :: int
  MaxTextureSize :: u32
  bSyncRefreshRate :: bool
  bInternalResolutionFrameDumps :: bool
  bDumpFramesAsImages :: bool
  bBorderlessFullscreen :: bool

text \<open>\<open>MathUtil::Rectangle<int>\<close>: four integer edges.\<close>

record Rectangle =
  left_edge :: int
  top_edge :: int
  right_edge :: int
  bottom_edge :: int

text \<open>
  The configuration of a texture, as far as the renderer compares it: the frame-dump
  textures are always created with one layer, one level, one sample, format RGBA8,
  so two of them differ exactly when width or height differ.
\<close>

record TextureConfig =
  cfg_width :: u32
  cfg_height :: u32

text \<open>\<open>FrameDumpConfig\<close>: the job description handed to the frame-dump worker.\<close>

record FrameDumpConfig =
  fd_data :: nat
  fd_width :: int
  fd_height :: int
  fd_stride :: int
  fd_state :: u64

text \<open>
  Declarations that RenderBase.cpp uses and that live outside the available sources are
  parameters of the model: the constants of VideoCommon.h and VideoConfig.h, the size
  accessors of \<open>MathUtil::Rectangle\<close>, \<open>TextureConfig::GetRect\<close>, \<open>ShaderHostConfig::GetCurrent\<close> as a function of
  the active configuration, and the build switch \<open>HAVE_FFMPEG\<close>.
\<close>

record collab =
  EFB_WIDTH :: u32
  EFB_HEIGHT :: u32
  MAX_XFB_WIDTH :: u32
  MAX_XFB_HEIGHT :: u32
  EFB_SCALE_AUTO_INTEGRAL :: int
  GetWidth :: "Rectangle \<Rightarrow> int"
  GetHeight :: "Rectangle \<Rightarrow> int"
  GetRect :: "TextureConfig \<Rightarrow> Rectangle"
  ShaderHostConfig_GetCurrent :: "VideoConfig \<Rightarrow> u32"
  HAVE_FFMPEG :: bool

text \<open>
  Calls into collaborators (backend, texture cache, vertex manager, host, analytics,
  worker-thread primitives) are recorded, in program order, in a trace of events.
\<close>

datatype event =
    EvTextureCacheOnConfigChanged
  | EvSetEfbScaleChanged
  | EvOnConfigChanged u32
  | EvOSDAddMessage
  | EvSetPipelineNull
  | EvInvalidatePipelineObject
  | EvSetHostConfig u32 u32
  | EvFlush
  | EvVertexManagerFlush
  | EvResetFlushAspectRatioCount
  | EvGetXFBTexture u32 u32 u32
  | EvResetAPIState
  | EvRestoreAPIState
  | EvReset3DVision
  | EvD3DReset nat
  | EvResizeSwapChain
  | EvD3DSetFullscreenState bool real
  | EvSetAndClearFramebuffer
  | EvRenderXFBToScreen nat Rectangle
  | EvImGuiLock
  | EvImGuiUnlock
  | EvDrawDebugText
  | EvOSDDrawMessages
  | EvRenderImGui
  | EvBeginImGuiFrame
  | EvShutdownImGui
  | EvSwapMutexLock
  | EvSwapMutexUnlock
  | EvPresentBackbuffer
  | EvHostRequestRenderWindowSize int int
  | EvHostRequestFullscreen bool real
  | EvReportPerformanceInfo
  | EvCreateTexture TextureConfig
  | EvScaleRectangleFromTexture
  | EvCopyRectangleFromTexture
  | EvCreateStagingTexture "TextureConfig option"
  | EvCopyFromTexture
  | EvStagingFlush
  | EvStagingMap bool
  | EvStagingUnmap
  | EvThreadStart
  | EvThreadJoin
  | EvFrameDumpStartSet
  | EvFrameDumpDoneWait
  | EvStatsResetFrame
  | EvRetrieveAsyncShaders
  | EvFlushEFBCopies
  | EvTextureCacheCleanup int
  | EvVideoCopiedToXFB

text \<open>What the frame-dump worker thread does to the outside, in program order.\<close>

datatype wevent =
    WWarnNoLibav
  | WFrameDumpStartWait
  | WTextureToPngScreenshot string
  | WOSDScreenshotSaved
  | WScreenshotCompletedSet
  | WAVIDumpStart int int
  | WAVIDumpAddFrame FrameDumpConfig
  | WAVIDumpStop
  | WFileExists u32
  | WAskOverwrite u32
  | WTextureToPngFrame u32 FrameDumpConfig
  | WFrameDumpDoneSet

text \<open>
  An entry of the texture cache, as \<open>GetXFBTexture\<close> returns it: its identifier, its
  native width, and its texture (a handle and the texture's configuration).
\<close>

record TCacheEntry =
  entry_id :: u64
  native_width :: u32
  texture :: nat
  texture_config :: TextureConfig

text \<open>
  What one call of \<open>Swap\<close> (or of \<open>Shutdown\<close>) reads from its collaborators: the
  console configuration, the flush counters of the vertex manager, the video
  interface, the texture cache, the mapped staging texture, \<open>AVIDump::FetchState\<close>,
  the configuration that \<open>UpdateActiveConfig\<close> copies from \<open>g_Config\<close>, and the state
  of the D3D swap chain.
\<close>

record swap_env =
  bWii :: bool
  SYSCONF_WIDESCREEN :: bool
  flush_count_4_3 :: u64
  flush_count_anamorphic :: u64
  GetTargetFractionalRefreshRate :: real
  GetAspectRatio :: fp
  xfb_entry :: "TCacheEntry option"
  staging_map_ok :: bool
  staging_mapped :: FrameDumpConfig
  FetchState :: "u64 \<Rightarrow> u64"
  UpdateActiveConfig :: VideoConfig
  d3d_GetFullscreenState :: bool
  d3d_SetFullscreenState_ok :: bool
  d3d_Reset :: "nat \<Rightarrow> (u32 \<times> u32) option"
  d3d_ResizeSwapChain :: "u32 \<times> u32"


text \<open>
  The members of \<open>Renderer\<close> (and of its D3D subclass) together with the globals the
  swap path writes: \<open>frameCount\<close>, \<open>g_ActiveConfig\<close>, the aspect-ratio hack values and
  \<open>iSaveTargetId\<close> of \<open>g_Config\<close>, \<open>SConfig::m_DumpFrames\<close>, and the swap chain of
  \<open>D3D\<close> (\<open>None\<close> when there is none, else the width and height of its description).
  The refresh rate, a \<open>float\<close> that the code only copies and compares, is a real. A
  null pointer is \<open>None\<close> (texture objects) or handle
  \<open>0\<close> (surface handle). The render thread appends to \<open>trace\<close>, the frame-dump worker
  to \<open>worker_trace\<close>.
\<close>

record renderer =
  g_ActiveConfig :: VideoConfig
  frameCount :: int
  fAspectRatioHackW :: fp
  fAspectRatioHackH :: fp
  iSaveTargetId :: int
  m_DumpFrames :: bool
  m_screenshot_request :: bool
  m_aspect_wide :: bool
  m_target_width :: int
  m_target_height :: int
  m_backbuffer_width :: int
  m_backbuffer_height :: int
  m_target_rectangle :: Rectangle
  m_last_refresh_rate :: real
  m_fullscreen_state :: bool
  m_new_surface_handle :: nat
  m_surface_changed :: bool
  m_surface_resized :: bool
  m_last_fullscreen_state :: bool
  m_efb_scale :: u32
  m_last_window_request_width :: int
  m_last_window_request_height :: int
  m_frame_dump_thread_joinable :: bool
  m_frame_dump_thread_running :: bool
  m_frame_dump_frame_running :: bool
  m_frame_dump_config :: FrameDumpConfig
  m_frame_dump_render_texture :: "TextureConfig option"
  m_frame_dump_readback_textures :: "TextureConfig option \<times> TextureConfig option"
  m_last_frame_state :: u64
  m_last_frame_exported :: bool
  m_last_xfb_texture :: "(nat \<times> TextureConfig) option"
  m_last_xfb_id :: u64
  m_last_xfb_ticks :: u64
  m_last_xfb_region :: Rectangle
  m_last_xfb_width :: u32
  m_last_xfb_height :: u32
  d3d_swapchain :: "(u32 \<times> u32) option"
  m_screenshot_name :: string
  m_frame_dump_image_counter :: u32
  trace :: "event list"
  worker_trace :: "wevent list"

definition emit :: "event list \<Rightarrow> renderer \<Rightarrow> renderer" where
  "emit es s = s\<lparr>trace := trace s @ es\<rparr>"

section \<open>Target size and configuration-change detection\<close>

text \<open>\<open>enum ConfigChangeBits : u32\<close> of RenderBase.h.\<close>

definition CONFIG_CHANGE_BIT_HOST_CONFIG :: u32 where
  "CONFIG_CHANGE_BIT_HOST_CONFIG = push_bit 0 1"

definition CONFIG_CHANGE_BIT_MULTISAMPLES :: u32 where
  "CONFIG_CHANGE_BIT_MULTISAMPLES = push_bit 1 1"

definition CONFIG_CHANGE_BIT_STEREO_MODE :: u32 where
  "CONFIG_CHANGE_BIT_STEREO_MODE = push_bit 2 1"

definition CONFIG_CHANGE_BIT_TARGET_SIZE :: u32 where
  "CONFIG_CHANGE_BIT_TARGET_SIZE = push_bit 3 1"

definition CONFIG_CHANGE_BIT_ANISOTROPY :: u32 where
  "CONFIG_CHANGE_BIT_ANISOTROPY = push_bit 4 1"

definition CONFIG_CHANGE_BIT_FORCE_TEXTURE_FILTERING :: u32 where
  "CONFIG_CHANGE_BIT_FORCE_TEXTURE_FILTERING = push_bit 5 1"

definition CONFIG_CHANGE_BIT_VSYNC :: u32 where
  "CONFIG_CHANGE_BIT_VSYNC = push_bit 6 1"

definition CONFIG_CHANGE_BIT_BBOX :: u32 where
  "CONFIG_CHANGE_BIT_BBOX = push_bit 7 1"

text \<open>
  \<open>Renderer::CalculateTargetScale\<close>: both arguments times
  \<open>static_cast<int>(m_efb_scale)\<close>.
\<close>

definition CalculateTargetScale :: "renderer \<Rightarrow> int \<Rightarrow> int \<Rightarrow> int \<times> int" where
  "CalculateTargetScale s x y = (x * sint (m_efb_scale s), y * sint (m_efb_scale s))"

text \<open>
  \<open>Renderer::CalculateTargetSize\<close>. The arithmetic of the auto-integral branch is
  unsigned 32-bit, as the operands \<open>EFB_WIDTH\<close> and \<open>m_last_xfb_width\<close> are \<open>u32\<close>; the
  results pass through \<open>int\<close> locals, which keeps the 32 bits. Returns whether the
  target size changed.
\<close>

definition CalculateTargetSize :: "collab \<Rightarrow> renderer \<Rightarrow> bool \<times> renderer" where
  "CalculateTargetSize K s =
    (let scale0 =
           (if iEFBScale (g_ActiveConfig s) = EFB_SCALE_AUTO_INTEGRAL K then
              (let width = EFB_WIDTH K * word_of_int (GetWidth K (m_target_rectangle s))
                             div m_last_xfb_width s;
                   height = EFB_HEIGHT K * word_of_int (GetHeight K (m_target_rectangle s))
                             div m_last_xfb_height s
               in max ((width - 1) div EFB_WIDTH K + 1) ((height - 1) div EFB_HEIGHT K + 1))
            else word_of_int (iEFBScale (g_ActiveConfig s)));
         max_size = MaxTextureSize (g_ActiveConfig s);
         scale1 = (if max_size < EFB_WIDTH K * scale0 then max_size div EFB_WIDTH K else scale0);
         s1 = s\<lparr>m_efb_scale := scale1\<rparr>;
         (new_efb_width, new_efb_height) =
           CalculateTargetScale s1 (sint (EFB_WIDTH K)) (sint (EFB_HEIGHT K))
     in if new_efb_width \<noteq> m_target_width s1 \<or> new_efb_height \<noteq> m_target_height s1
        then (True, emit [EvSetEfbScaleChanged]
                     (s1\<lparr>m_target_width := new_efb_width, m_target_height := new_efb_height\<rparr>))
        else (False, s1))"

text \<open>
  The bitmask that \<open>Renderer::CheckForConfigChanges\<close> accumulates in \<open>changed_bits\<close>:
  the old values are those saved before \<open>UpdateActiveConfig\<close>, the new ones are read
  from the refreshed \<open>g_ActiveConfig\<close>, and \<open>target_changed\<close> is the result of the
  call of \<open>CalculateTargetSize\<close>. The tests are in the order of the source.
\<close>

definition changed_bits ::
    "collab \<Rightarrow> VideoConfig \<Rightarrow> VideoConfig \<Rightarrow> bool \<Rightarrow> u32" where
  "changed_bits K old_config new_config target_changed =
    (let b0 = (0 :: u32);
         b1 = (if ShaderHostConfig_GetCurrent K old_config
                    \<noteq> ShaderHostConfig_GetCurrent K new_config
               then b0 OR CONFIG_CHANGE_BIT_HOST_CONFIG else b0);
         b2 = (if stereo_mode old_config \<noteq> stereo_mode new_config
               then b1 OR CONFIG_CHANGE_BIT_STEREO_MODE else b1);
         b3 = (if iMultisamples old_config \<noteq> iMultisamples new_config
               then b2 OR CONFIG_CHANGE_BIT_MULTISAMPLES else b2);
         b4 = (if iMaxAnisotropy old_config \<noteq> iMaxAnisotropy new_config
               then b3 OR CONFIG_CHANGE_BIT_ANISOTROPY else b3);
         b5 = (if bForceFiltering old_config \<noteq> bForceFiltering new_config
               then b4 OR CONFIG_CHANGE_BIT_FORCE_TEXTURE_FILTERING else b4);
         b6 = (if bVSyncActive old_config \<noteq> bVSyncActive new_config
               then b5 OR CONFIG_CHANGE_BIT_VSYNC else b5);
         b7 = (if bBBoxEnable old_config \<noteq> bBBoxEnable new_config
               then b6 OR CONFIG_CHANGE_BIT_BBOX else b6)
     in if target_changed then b7 OR CONFIG_CHANGE_BIT_TARGET_SIZE else b7)"

text \<open>
  \<open>Renderer::CheckForConfigChanges\<close>. \<open>UpdateActiveConfig\<close> installs \<open>new_config\<close>
  (the current \<open>g_Config\<close>) as \<open>g_ActiveConfig\<close>.
\<close>

definition CheckForConfigChanges :: "collab \<Rightarrow> VideoConfig \<Rightarrow> renderer \<Rightarrow> renderer" where
  "CheckForConfigChanges K new_config s =
    (let old_config = g_ActiveConfig s;
         s1 = s\<lparr>g_ActiveConfig := new_config\<rparr>;
         s2 = emit [EvTextureCacheOnConfigChanged] s1;
         new_host_config = ShaderHostConfig_GetCurrent K (g_ActiveConfig s2);
         (target_changed, s3) = CalculateTargetSize K s2;
         bits = changed_bits K old_config (g_ActiveConfig s2) target_changed
     in if bits = 0 then s3
        else
          (let s4 = emit [EvOnConfigChanged bits] s3
           in if bits AND (CONFIG_CHANGE_BIT_HOST_CONFIG OR CONFIG_CHANGE_BIT_MULTISAMPLES) \<noteq> 0
              then emit [EvOSDAddMessage, EvSetPipelineNull, EvInvalidatePipelineObject,
                         EvSetHostConfig new_host_config (iMultisamples (g_ActiveConfig s4))] s4
              else s4))"

text \<open>
  The boolean that \<open>CheckForConfigChanges\<close> obtains from \<open>CalculateTargetSize\<close>, and the
  mask it ends up with in \<open>changed_bits\<close>, as functions of the state before the call and
  of the configuration that \<open>UpdateActiveConfig\<close> installs.
\<close>

definition target_changed :: "collab \<Rightarrow> VideoConfig \<Rightarrow> renderer \<Rightarrow> bool" where
  "target_changed K new_config s =
     fst (CalculateTargetSize K (s\<lparr>g_ActiveConfig := new_config\<rparr>))"

definition ConfigChangeMask :: "collab \<Rightarrow> VideoConfig \<Rightarrow> renderer \<Rightarrow> u32" where
  "ConfigChangeMask K new_config s =
     changed_bits K (g_ActiveConfig s) new_config (target_changed K new_config s)"

text \<open>The events a call has appended to the trace of the state it started from.\<close>

definition new_events :: "renderer \<Rightarrow> renderer \<Rightarrow> event list" where
  "new_events s s' = drop (length (trace s)) (trace s')"

section \<open>Swap: widescreen heuristic, refresh rate, fullscreen\<close>

text \<open>
  The heuristic of \<open>Swap\<close> compares a \<open>size_t\<close> count with \<open>0.75 * flush_total\<close> in
  \<open>double\<close>. A \<open>double\<close> has 53 significant bits; conversions and products are rounded
  to nearest, ties to even. \<open>round_to_53\<close> is that rounding on natural numbers, and it
  is the rounding of every non-negative value that is a natural number scaled by a
  power of two.
\<close>

definition round_to_53 :: "nat \<Rightarrow> nat" where
  "round_to_53 n =
     (if n < 2 ^ 53 then n
      else (let e = bit_length n - 53;
                q = n div 2 ^ e;
                r = n mod 2 ^ e;
                half = 2 ^ (e - 1)
            in (if half < r \<or> (r = half \<and> odd q) then q + 1 else q) * 2 ^ e))"

text \<open>The \<open>double\<close> that a \<open>size_t\<close> converts to (a natural number).\<close>

definition size_t_to_double :: "u64 \<Rightarrow> nat" where
  "size_t_to_double c = round_to_53 (unat c)"

text \<open>
  The test \<open>count > 0.75 * flush_total\<close>: both operands are converted to \<open>double\<close>,
  the product \<open>0.75 * t\<close> is the rounding of \<open>3 * t / 4\<close>, that is a quarter of
  \<open>round_to_53 (3 * t)\<close>; the comparison is exact.
\<close>

definition exceeds_0_75 :: "u64 \<Rightarrow> u64 \<Rightarrow> bool" where
  "exceeds_0_75 count flush_total =
     (round_to_53 (3 * size_t_to_double flush_total) < 4 * size_t_to_double count)"

text \<open>The first statement of \<open>Renderer::Swap\<close>: the update of \<open>m_aspect_wide\<close>.\<close>

definition Swap_aspect :: "swap_env \<Rightarrow> renderer \<Rightarrow> renderer" where
  "Swap_aspect E s =
    (let suggested = suggested_aspect_mode (g_ActiveConfig s)
     in if suggested = Analog \<or> suggested = AnalogWide
        then s\<lparr>m_aspect_wide := (suggested = AnalogWide)\<rparr>
        else if bWii E then s\<lparr>m_aspect_wide := SYSCONF_WIDESCREEN E\<rparr>
        else
          (let s1 = emit [EvResetFlushAspectRatioCount] s;
               flush_total = flush_count_4_3 E + flush_count_anamorphic E
           in if m_aspect_wide s1
              then s1\<lparr>m_aspect_wide := \<not> exceeds_0_75 (flush_count_4_3 E) flush_total\<rparr>
              else s1\<lparr>m_aspect_wide := exceeds_0_75 (flush_count_anamorphic E) flush_total\<rparr>))"

text \<open>\<open>::Renderer::ChangeFullscreenState\<close> and its override in \<open>DX11::Renderer\<close>.\<close>

definition ChangeFullscreenState_base :: "bool \<Rightarrow> real \<Rightarrow> renderer \<Rightarrow> renderer" where
  "ChangeFullscreenState_base enable target_refresh_rate s =
     emit [EvHostRequestFullscreen enable target_refresh_rate] (s\<lparr>m_fullscreen_state := enable\<rparr>)"

definition ChangeFullscreenState :: "swap_env \<Rightarrow> bool \<Rightarrow> real \<Rightarrow> renderer \<Rightarrow> renderer" where
  "ChangeFullscreenState E enabled refresh_rate s =
     (if bBorderlessFullscreen (g_ActiveConfig s)
      then ChangeFullscreenState_base enabled refresh_rate s
      else (let s1 = emit [EvD3DSetFullscreenState enabled refresh_rate] s
            in if \<not> d3d_SetFullscreenState_ok E then s1
               else s1\<lparr>m_fullscreen_state := enabled\<rparr>))"

text \<open>The refresh-rate statement of \<open>Swap\<close>.\<close>

definition Swap_refresh_rate :: "swap_env \<Rightarrow> renderer \<Rightarrow> renderer" where
  "Swap_refresh_rate E s =
    (let current_refresh_rate = GetTargetFractionalRefreshRate E
     in if m_last_refresh_rate s \<noteq> current_refresh_rate
        then (let s1 = s\<lparr>m_last_refresh_rate := current_refresh_rate\<rparr>
              in if m_fullscreen_state s1 \<and> bSyncRefreshRate (g_ActiveConfig s1)
                 then ChangeFullscreenState E True current_refresh_rate s1
                 else s1)
        else s)"

section \<open>Surface notifications and the backbuffer (D3D backend)\<close>

text \<open>
  \<open>Renderer::ChangeSurface\<close> and \<open>Renderer::ResizeSurface\<close>, each a critical section of
  \<open>m_swap_mutex\<close>.
\<close>

definition ChangeSurface :: "nat \<Rightarrow> renderer \<Rightarrow> renderer" where
  "ChangeSurface new_surface_handle s =
     emit [EvSwapMutexUnlock]
       ((emit [EvSwapMutexLock] s)
          \<lparr>m_new_surface_handle := new_surface_handle, m_surface_changed := True\<rparr>)"

definition ResizeSurface :: "renderer \<Rightarrow> renderer" where
  "ResizeSurface s =
     emit [EvSwapMutexUnlock] ((emit [EvSwapMutexLock] s)\<lparr>m_surface_resized := True\<rparr>)"

definition UpdateBackbufferSize :: "renderer \<Rightarrow> renderer" where
  "UpdateBackbufferSize s =
     (case d3d_swapchain s of
        Some (w, h) \<Rightarrow>
          s\<lparr>m_backbuffer_width := sint (max w 1), m_backbuffer_height := sint (max h 1)\<rparr>
      | None \<Rightarrow> s\<lparr>m_backbuffer_width := 1, m_backbuffer_height := 1\<rparr>)"

definition CheckForSurfaceChange :: "swap_env \<Rightarrow> renderer \<Rightarrow> renderer" where
  "CheckForSurfaceChange E s =
     (if \<not> m_surface_changed s then s
      else (let s1 = s\<lparr>m_surface_changed := False\<rparr>;
                s2 = (emit [EvReset3DVision, EvD3DReset (m_new_surface_handle s1)] s1)
                       \<lparr>d3d_swapchain := d3d_Reset E (m_new_surface_handle s1)\<rparr>;
                s3 = s2\<lparr>m_new_surface_handle := 0\<rparr>
            in UpdateBackbufferSize s3))"

text \<open>\<open>TestAndClear\<close> clears \<open>m_surface_resized\<close> whatever the outcome of the test.\<close>

definition CheckForSurfaceResize :: "swap_env \<Rightarrow> renderer \<Rightarrow> renderer" where
  "CheckForSurfaceResize E s =
     (let fullscreen_state = d3d_GetFullscreenState E;
          exclusive_fullscreen_changed = (fullscreen_state \<noteq> m_last_fullscreen_state s);
          was_resized = m_surface_resized s;
          s1 = s\<lparr>m_surface_resized := False\<rparr>
      in if \<not> was_resized \<and> \<not> exclusive_fullscreen_changed then s1
         else (let s2 = (emit [EvReset3DVision] s1)\<lparr>m_last_fullscreen_state := fullscreen_state\<rparr>;
                   s3 = (if d3d_swapchain s2 \<noteq> None
                         then (emit [EvResizeSwapChain] s2)
                                \<lparr>d3d_swapchain := Some (d3d_ResizeSwapChain E)\<rparr>
                         else s2)
               in UpdateBackbufferSize s3))"

definition BindBackbuffer :: "swap_env \<Rightarrow> renderer \<Rightarrow> renderer" where
  "BindBackbuffer E s =
     emit [EvSetAndClearFramebuffer] (CheckForSurfaceResize E (CheckForSurfaceChange E s))"

definition PresentBackbuffer :: "renderer \<Rightarrow> renderer" where
  "PresentBackbuffer s = emit [EvPresentBackbuffer] s"

definition IsHeadless :: "renderer \<Rightarrow> bool" where
  "IsHeadless s = (d3d_swapchain s = None)"

text \<open>
  \<open>DX11::Renderer::BindBackbuffer\<close> runs on the render thread without \<open>m_swap_mutex\<close>,
  so a notification from another thread can fall between two of its accesses to the
  members the threads share. \<open>bind_pc\<close> is the place of the render thread inside
  \<open>BindBackbuffer\<close>, and \<open>bind_step\<close> runs it up to its next access to a shared member:
  the \<open>TestAndClear\<close> of \<open>m_surface_changed\<close>; the call of \<open>D3D::Reset\<close>, which reads
  \<open>m_new_surface_handle\<close>; the assignment of \<open>nullptr\<close> to \<open>m_new_surface_handle\<close>, with
  \<open>UpdateBackbufferSize\<close>; and \<open>CheckForSurfaceResize\<close>, whose only shared access is the
  \<open>TestAndClear\<close> of \<open>m_surface_resized\<close>, with the clear of the framebuffer.
\<close>

datatype bind_pc = AtTestChanged | AtReset | AtClearHandle | AtCheckResize | AtBound

fun bind_step :: "swap_env \<Rightarrow> bind_pc \<Rightarrow> renderer \<Rightarrow> bind_pc \<times> renderer" where
  "bind_step E AtTestChanged s =
     (if m_surface_changed s then (AtReset, s\<lparr>m_surface_changed := False\<rparr>)
      else (AtCheckResize, s))"
| "bind_step E AtReset s =
     (AtClearHandle,
      (emit [EvReset3DVision, EvD3DReset (m_new_surface_handle s)] s)
        \<lparr>d3d_swapchain := d3d_Reset E (m_new_surface_handle s)\<rparr>)"
| "bind_step E AtClearHandle s =
     (AtCheckResize, UpdateBackbufferSize (s\<lparr>m_new_surface_handle := 0\<rparr>))"
| "bind_step E AtCheckResize s =
     (AtBound, emit [EvSetAndClearFramebuffer] (CheckForSurfaceResize E s))"
| "bind_step E AtBound s = (AtBound, s)"

text \<open>
  One step of the two threads: the render thread moves on inside \<open>BindBackbuffer\<close>, or
  the other thread runs \<open>ChangeSurface\<close> or \<open>ResizeSurface\<close> (each taken as one step: it
  holds the mutex, which the render thread does not wait for). A list of steps is an
  interleaving.
\<close>

datatype thread_step = RenderThread | CallChangeSurface nat | CallResizeSurface

fun interleave ::
    "swap_env \<Rightarrow> thread_step list \<Rightarrow> bind_pc \<times> renderer \<Rightarrow> bind_pc \<times> renderer" where
  "interleave E [] c = c"
| "interleave E (RenderThread # xs) c = interleave E xs (bind_step E (fst c) (snd c))"
| "interleave E (CallChangeSurface h # xs) c = interleave E xs (fst c, ChangeSurface h (snd c))"
| "interleave E (CallResizeSurface # xs) c = interleave E xs (fst c, ResizeSurface (snd c))"

section \<open>Draw rectangle and output dimensions\<close>

text \<open>The C++ operator \<open>%\<close> on \<open>int\<close>: the remainder of the division that truncates.\<close>

definition cpp_mod :: "int \<Rightarrow> int \<Rightarrow> int" where
  "cpp_mod a b = a - b * (sgn a * sgn b * (\<bar>a\<bar> div \<bar>b\<bar>))"

text \<open>
  \<open>AspectToWidescreen\<close>. Its factor \<open>(16.0f / 9.0f) / (4.0f / 3.0f)\<close> is a \<open>float\<close>
  expression: each quotient is rounded.
\<close>

definition AspectToWidescreen :: "fp \<Rightarrow> fp" where
  "AspectToWidescreen aspect =
     float_mul aspect
       (float_div (float_div (Finite False 16) (Finite False 9))
                  (float_div (Finite False 4) (Finite False 3)))"

definition CalculateDrawAspectRatio :: "swap_env \<Rightarrow> renderer \<Rightarrow> fp" where
  "CalculateDrawAspectRatio E s =
     (if aspect_mode (g_ActiveConfig s) = Stretch
      then float_div (float_of_int (m_backbuffer_width s)) (float_of_int (m_backbuffer_height s))
      else if aspect_mode (g_ActiveConfig s) = AnalogWide
              \<or> (aspect_mode (g_ActiveConfig s) \<noteq> Analog \<and> m_aspect_wide s)
      then AspectToWidescreen (GetAspectRatio E)
      else GetAspectRatio E)"

definition ScaleToDisplayAspectRatio :: "swap_env \<Rightarrow> renderer \<Rightarrow> int \<Rightarrow> int \<Rightarrow> fp \<times> fp" where
  "ScaleToDisplayAspectRatio E s width height =
     (let scaled_width = float_of_int width;
          scaled_height = float_of_int height;
          draw_aspect = CalculateDrawAspectRatio E s
      in if fp_greater_equal (float_div scaled_width scaled_height) draw_aspect
         then (scaled_width, float_div scaled_width draw_aspect)
         else (float_mul scaled_height draw_aspect, scaled_height))"

text \<open>The expected aspect of the crop box, as both users of \<open>bCrop\<close> compute it.\<close>

definition expected_aspect :: "renderer \<Rightarrow> fp" where
  "expected_aspect s =
     (if aspect_mode (g_ActiveConfig s) = AnalogWide
         \<or> (aspect_mode (g_ActiveConfig s) \<noteq> Analog \<and> m_aspect_wide s)
      then float_div (Finite False 16) (Finite False 9)
      else float_div (Finite False 4) (Finite False 3))"

text \<open>
  The first part of \<open>Renderer::UpdateDrawRectangle\<close>: the values it stores in
  \<open>g_Config.fAspectRatioHackW\<close> and \<open>g_Config.fAspectRatioHackH\<close>.
\<close>

definition aspect_ratio_hack :: "swap_env \<Rightarrow> renderer \<Rightarrow> fp \<times> fp" where
  "aspect_ratio_hack E s =
     (if bWidescreenHack (g_ActiveConfig s)
      then (let win_width = float_of_int (m_backbuffer_width s);
                win_height = float_of_int (m_backbuffer_height s);
                source_aspect = (if m_aspect_wide s then AspectToWidescreen (GetAspectRatio E)
                                 else GetAspectRatio E);
                target_aspect =
                  (case aspect_mode (g_ActiveConfig s) of
                     Stretch \<Rightarrow> float_div win_width win_height
                   | Analog \<Rightarrow> GetAspectRatio E
                   | AnalogWide \<Rightarrow> AspectToWidescreen (GetAspectRatio E)
                   | Auto \<Rightarrow> source_aspect);
                adjust = float_div source_aspect target_aspect
            in if fp_greater adjust (Finite False 1)
               then (Finite False 1, float_div (Finite False 1) adjust)
               else (adjust, Finite False 1))
      else (Finite False 1, Finite False 1))"

text \<open>
  The middle part of \<open>UpdateDrawRectangle\<close>: \<open>draw_width\<close> and \<open>draw_height\<close> after the
  fit to the window and before the alignment to multiples of four.
\<close>

definition draw_size :: "swap_env \<Rightarrow> renderer \<Rightarrow> fp \<times> fp" where
  "draw_size E s =
     (let win_width = float_of_int (m_backbuffer_width s);
          win_height = float_of_int (m_backbuffer_height s);
          draw_width = CalculateDrawAspectRatio E s;
          draw_height = Finite False 1;
          crop_width0 = draw_width;
          crop_height0 = draw_height;
          (crop_width, crop_height) =
            (if bCrop (g_ActiveConfig s) \<and> aspect_mode (g_ActiveConfig s) \<noteq> Stretch
             then (if fp_greater_equal (float_div crop_width0 crop_height0) (expected_aspect s)
                   then (float_mul crop_height0 (expected_aspect s), crop_height0)
                   else (crop_width0, float_div crop_width0 (expected_aspect s)))
             else (crop_width0, crop_height0))
      in if fp_greater_equal (float_div win_width win_height) (float_div crop_width crop_height)
         then (float_mul draw_width (float_div win_height crop_height),
               float_mul draw_height (float_div win_height crop_height))
         else (float_mul draw_width (float_div win_width crop_width),
               float_mul draw_height (float_div win_width crop_width)))"

text \<open>\<open>std::ceil(v) - static_cast<int>(std::ceil(v)) % 4\<close>, a \<open>float\<close>.\<close>

definition ceil_align_4 :: "fp \<Rightarrow> fp" where
  "ceil_align_4 v = float_sub (fp_ceil v) (float_of_int (cpp_mod (fp_to_int (fp_ceil v)) 4))"

text \<open>
  \<open>Renderer::UpdateDrawRectangle\<close>. The left and top edges are computed in \<open>double\<close>,
  as the literal \<open>2.0\<close> is one.
\<close>

definition UpdateDrawRectangle :: "swap_env \<Rightarrow> renderer \<Rightarrow> renderer" where
  "UpdateDrawRectangle E s =
     (let win_width = float_of_int (m_backbuffer_width s);
          win_height = float_of_int (m_backbuffer_height s);
          (hack_w, hack_h) = aspect_ratio_hack E s;
          (draw_width0, draw_height0) = draw_size E s;
          draw_width = ceil_align_4 draw_width0;
          draw_height = ceil_align_4 draw_height0;
          left = fp_to_int (fp_round_away
                   (double_sub (double_div win_width (Finite False 2))
                               (double_div draw_width (Finite False 2))));
          top = fp_to_int (fp_round_away
                   (double_sub (double_div win_height (Finite False 2))
                               (double_div draw_height (Finite False 2))))
      in s\<lparr>fAspectRatioHackW := hack_w, fAspectRatioHackH := hack_h,
           m_target_rectangle :=
             \<lparr>left_edge = left, top_edge = top,
              right_edge = left + fp_to_int draw_width,
              bottom_edge = top + fp_to_int draw_height\<rparr>\<rparr>)"

definition CalculateOutputDimensions :: "swap_env \<Rightarrow> renderer \<Rightarrow> int \<Rightarrow> int \<Rightarrow> int \<times> int" where
  "CalculateOutputDimensions E s width0 height0 =
     (let width = max width0 1;
          height = max height0 1;
          (scaled_width0, scaled_height0) = ScaleToDisplayAspectRatio E s width height;
          (scaled_width, scaled_height) =
            (if bCrop (g_ActiveConfig s)
             then (let current_aspect = float_div scaled_width0 scaled_height0
                   in if fp_greater current_aspect (expected_aspect s)
                      then (float_mul scaled_height0 (expected_aspect s), scaled_height0)
                      else (scaled_width0, float_div scaled_width0 (expected_aspect s)))
             else (scaled_width0, scaled_height0));
          width1 = fp_to_int (fp_ceil scaled_width);
          height1 = fp_to_int (fp_ceil scaled_height)
      in (width1 - cpp_mod width1 4, height1 - cpp_mod height1 4))"

definition SetWindowSize :: "swap_env \<Rightarrow> int \<Rightarrow> int \<Rightarrow> renderer \<Rightarrow> renderer" where
  "SetWindowSize E width0 height0 s =
     (let (width, height) = CalculateOutputDimensions E s width0 height0
      in if width \<noteq> m_last_window_request_width s \<or> height \<noteq> m_last_window_request_height s
         then (let s1 = s\<lparr>m_last_window_request_width := width,
                           m_last_window_request_height := height\<rparr>
               in if \<not> m_fullscreen_state s1
                  then emit [EvHostRequestRenderWindowSize width height] s1
                  else s1)
         else s)"

section \<open>Frame dumping on the render thread\<close>

definition IsFrameDumping :: "renderer \<Rightarrow> bool" where
  "IsFrameDumping s = (if m_screenshot_request s then True else if m_DumpFrames s then True else False)"

text \<open>
  \<open>Renderer::RenderFrameDump\<close>. It is only called from \<open>DumpCurrentFrame\<close>, after \<open>Swap\<close>
  has stored the XFB texture in \<open>m_last_xfb_texture\<close>; with a null
  \<open>m_last_xfb_texture\<close> the source would dereference a null pointer where the model
  leaves the state as it is.
\<close>

definition RenderFrameDump :: "collab \<Rightarrow> swap_env \<Rightarrow> renderer \<Rightarrow> renderer" where
  "RenderFrameDump K E s =
     (case m_last_xfb_texture s of
        None \<Rightarrow> s
      | Some (tex, tex_config) \<Rightarrow>
         (let (target_width, target_height) =
                (if \<not> bInternalResolutionFrameDumps (g_ActiveConfig s) \<and> \<not> IsHeadless s
                 then (GetWidth K (m_target_rectangle s), GetHeight K (m_target_rectangle s))
                 else CalculateOutputDimensions E s (sint (cfg_width tex_config))
                        (sint (cfg_height tex_config)));
              config = \<lparr>cfg_width = word_of_int target_width, cfg_height = word_of_int target_height\<rparr>;
              s1 = (if m_frame_dump_render_texture s = None
                       \<or> m_frame_dump_render_texture s \<noteq> Some config
                    then (emit [EvCreateTexture config] s)\<lparr>m_frame_dump_render_texture := Some config\<rparr>
                    else s)
          in if GetWidth K (m_last_xfb_region s1) \<noteq> target_width
                \<or> GetHeight K (m_last_xfb_region s1) \<noteq> target_height
             then emit [EvScaleRectangleFromTexture] s1
             else emit [EvCopyRectangleFromTexture] s1))"

text \<open>
  \<open>Renderer::QueueFrameDumpReadback\<close>. A staging texture is created with the
  configuration of the render texture.
\<close>

definition QueueFrameDumpReadback :: "swap_env \<Rightarrow> renderer \<Rightarrow> renderer" where
  "QueueFrameDumpReadback E s =
     (let rb = m_frame_dump_readback_textures s;
          rb1 = (if fst rb \<noteq> None then (snd rb, fst rb) else rb);
          s1 = s\<lparr>m_frame_dump_readback_textures := rb1\<rparr>;
          s2 = (if fst rb1 = None \<or> fst rb1 \<noteq> m_frame_dump_render_texture s1
                then (emit [EvCreateStagingTexture (m_frame_dump_render_texture s1)] s1)
                       \<lparr>m_frame_dump_readback_textures := (m_frame_dump_render_texture s1, snd rb1)\<rparr>
                else s1)
      in emit [EvCopyFromTexture]
           (s2\<lparr>m_last_frame_state := FetchState E (m_last_xfb_ticks s2),
                m_last_frame_exported := True\<rparr>))"

definition DumpCurrentFrame :: "collab \<Rightarrow> swap_env \<Rightarrow> renderer \<Rightarrow> renderer" where
  "DumpCurrentFrame K E s = QueueFrameDumpReadback E (RenderFrameDump K E s)"

text \<open>
  \<open>Renderer::DumpFrameData\<close> hands a job to the worker; it starts the worker thread
  (joining a finished one first) when \<open>m_frame_dump_thread_running\<close> is not set.
\<close>

definition DumpFrameData :: "FrameDumpConfig \<Rightarrow> renderer \<Rightarrow> renderer" where
  "DumpFrameData config s =
     (let s1 = s\<lparr>m_frame_dump_config := config\<rparr>;
          s2 = (if \<not> m_frame_dump_thread_running s1
                then (let s1a = (if m_frame_dump_thread_joinable s1
                                 then emit [EvThreadJoin] s1 else s1)
                      in (emit [EvThreadStart] s1a)
                           \<lparr>m_frame_dump_thread_running := True,
                            m_frame_dump_thread_joinable := True\<rparr>)
                else s1)
      in (emit [EvFrameDumpStartSet] s2)\<lparr>m_frame_dump_frame_running := True\<rparr>)"

text \<open>\<open>Renderer::FinishFrameData\<close>: the wait for the worker's done event.\<close>

definition FinishFrameData :: "renderer \<Rightarrow> renderer" where
  "FinishFrameData s =
     (if \<not> m_frame_dump_frame_running s then s
      else (emit [EvFrameDumpDoneWait] s)\<lparr>m_frame_dump_frame_running := False\<rparr>)"

text \<open>
  \<open>Renderer::FlushFrameDump\<close> and \<open>Renderer::ShutdownFrameDumping\<close> call each other.
  The pointer, size and stride passed to \<open>DumpFrameData\<close> are read from the mapped
  staging texture.
\<close>

function FlushFrameDump :: "swap_env \<Rightarrow> renderer \<Rightarrow> renderer"
  and ShutdownFrameDumping :: "swap_env \<Rightarrow> renderer \<Rightarrow> renderer" where
  "FlushFrameDump E s =
     (if \<not> m_last_frame_exported s then s
      else (let s1 = FinishFrameData s;
                s2 = emit [EvStagingFlush, EvStagingMap (staging_map_ok E)] s1;
                s3 = (if staging_map_ok E
                      then emit [EvStagingUnmap]
                             (DumpFrameData ((staging_mapped E)\<lparr>fd_state := m_last_frame_state s2\<rparr>) s2)
                      else s2);
                s4 = s3\<lparr>m_last_frame_exported := False\<rparr>
            in if \<not> IsFrameDumping s4 then ShutdownFrameDumping E s4 else s4))"
| "ShutdownFrameDumping E s =
     (let s1 = FlushFrameDump E s
      in if \<not> m_frame_dump_thread_running s1 then s1
         else (let s2 = FinishFrameData s1;
                   s3 = emit [EvFrameDumpStartSet] (s2\<lparr>m_frame_dump_thread_running := False\<rparr>);
                   s4 = (if m_frame_dump_thread_joinable s3
                         then (emit [EvThreadJoin] s3)\<lparr>m_frame_dump_thread_joinable := False\<rparr>
                         else s3)
               in s4\<lparr>m_frame_dump_render_texture := None,
                      m_frame_dump_readback_textures := (None, None)\<rparr>))"
  by pat_completeness auto
termination
  by (relation "measure (\<lambda>x. case x of
          Inl (E, s) \<Rightarrow> (if m_last_frame_exported s then 2 else 0)
        | Inr (E, s) \<Rightarrow> (if m_last_frame_exported s then 3 else 1))") auto

declare FlushFrameDump.simps [simp del]
declare ShutdownFrameDumping.simps [simp del]

text \<open>\<open>Renderer::Shutdown\<close>.\<close>

definition Shutdown :: "swap_env \<Rightarrow> renderer \<Rightarrow> renderer" where
  "Shutdown E s =
     (let s1 = ShutdownFrameDumping E s;
          s2 = (if m_fullscreen_state s1 then ChangeFullscreenState E False 0 s1 else s1)
      in emit [EvShutdownImGui] s2)"

section \<open>Swap\<close>

definition EFBToScaledX :: "renderer \<Rightarrow> int \<Rightarrow> int" where
  "EFBToScaledX s x = x * sint (m_efb_scale s)"

text \<open>
  The new-frame block of \<open>Renderer::Swap\<close>, entered with the cache entry \<open>e\<close> when its
  identifier differs from \<open>m_last_xfb_id\<close>.
\<close>

definition Swap_present ::
    "collab \<Rightarrow> swap_env \<Rightarrow> TCacheEntry \<Rightarrow> u32 \<Rightarrow> u32 \<Rightarrow> u64 \<Rightarrow> renderer \<Rightarrow> renderer" where
  "Swap_present K E e fbWidth fbStride ticks s =
     (let tex_config = texture_config e;
          s1 = s\<lparr>m_last_xfb_texture := Some (texture e, tex_config),
                 m_last_xfb_id := entry_id e,
                 m_last_xfb_ticks := ticks\<rparr>;
          xfb_rect0 = GetRect K tex_config;
          native_stride_width_difference = fbStride - fbWidth;
          xfb_rect =
            (if cfg_width tex_config = native_width e
             then xfb_rect0\<lparr>right_edge :=
                    sint (word_of_int (right_edge xfb_rect0) - native_stride_width_difference)\<rparr>
             else xfb_rect0\<lparr>right_edge :=
                    right_edge xfb_rect0 - EFBToScaledX s1 (sint native_stride_width_difference)\<rparr>);
          s2 = s1\<lparr>m_last_xfb_region := xfb_rect\<rparr>;
          s3 = emit [EvVertexManagerFlush, EvResetAPIState] s2;
          s4 = BindBackbuffer E s3;
          s5 = UpdateDrawRectangle E s4;
          s6 = emit [EvRenderXFBToScreen (texture e) xfb_rect,
                     EvImGuiLock, EvDrawDebugText, EvOSDDrawMessages, EvRenderImGui, EvImGuiUnlock,
                     EvSwapMutexLock] s5;
          s7 = emit [EvSwapMutexUnlock] (PresentBackbuffer s6);
          s8 = SetWindowSize E (sint (cfg_width tex_config)) (sint (cfg_height tex_config)) s7;
          s9 = emit [EvReportPerformanceInfo] s8;
          s10 = (if IsFrameDumping s9 then DumpCurrentFrame K E s9 else s9);
          s11 = s10\<lparr>frameCount := frameCount s10 + 1\<rparr>;
          s12 = emit [EvStatsResetFrame, EvRetrieveAsyncShaders, EvBeginImGuiFrame,
                      EvInvalidatePipelineObject, EvFlushEFBCopies,
                      EvTextureCacheCleanup (frameCount s11)] s11;
          s13 = (CheckForConfigChanges K (UpdateActiveConfig E) s12)\<lparr>iSaveTargetId := 0\<rparr>
      in emit [EvRestoreAPIState, EvVideoCopiedToXFB] s13)"

text \<open>
  \<open>Renderer::Swap\<close>. The parameter \<open>rc\<close> of the source is not used by it and is left
  out. \<open>size_t\<close> has 64 bits.
\<close>

definition Swap ::
    "collab \<Rightarrow> swap_env \<Rightarrow> u32 \<Rightarrow> u32 \<Rightarrow> u32 \<Rightarrow> u32 \<Rightarrow> u64 \<Rightarrow> renderer \<Rightarrow> renderer" where
  "Swap K E xfbAddr fbWidth fbStride fbHeight ticks s =
     (let s1 = Swap_aspect E s;
          s2 = FlushFrameDump E s1;
          s3 = Swap_refresh_rate E s2
      in if xfbAddr \<noteq> 0 \<and> fbWidth \<noteq> 0 \<and> fbStride \<noteq> 0 \<and> fbHeight \<noteq> 0
         then (let s4 = emit [EvGetXFBTexture xfbAddr fbStride fbHeight] s3;
                   s5 = (case xfb_entry E of
                           None \<Rightarrow> emit [EvFlush] s4
                         | Some e \<Rightarrow>
                             if entry_id e \<noteq> m_last_xfb_id s4
                             then Swap_present K E e fbWidth fbStride ticks s4
                             else emit [EvFlush] s4)
               in s5\<lparr>m_last_xfb_width :=
                        (if fbStride < 1 \<or> MAX_XFB_WIDTH K < fbStride then MAX_XFB_WIDTH K
                         else fbStride),
                      m_last_xfb_height :=
                        (if fbHeight < 1 \<or> MAX_XFB_HEIGHT K < fbHeight then MAX_XFB_HEIGHT K
                         else fbHeight)\<rparr>)
         else emit [EvFlush] s3)"

text \<open>\<open>Renderer::BeginUIFrame\<close> and \<open>Renderer::EndUIFrame\<close>.\<close>

definition BeginUIFrame :: "swap_env \<Rightarrow> renderer \<Rightarrow> renderer" where
  "BeginUIFrame E s = BindBackbuffer E (emit [EvResetAPIState] s)"

definition EndUIFrame :: "renderer \<Rightarrow> renderer" where
  "EndUIFrame s =
     emit [EvSwapMutexUnlock, EvBeginImGuiFrame, EvRestoreAPIState]
       (PresentBackbuffer (emit [EvImGuiLock, EvRenderImGui, EvImGuiUnlock, EvSwapMutexLock] s))"

section \<open>The frame-dump worker thread\<close>












section \<open>Notions used in the statements and proofs\<close>

text \<open>
  The two halves of the mutual recursion above, each without a recursive call:
  \<open>FlushFrameDump_encode\<close> is \<open>FlushFrameDump\<close> from \<open>FinishFrameData\<close> to the reset of
  \<open>m_last_frame_exported\<close>, \<open>ShutdownFrameDumping_stop\<close> is \<open>ShutdownFrameDumping\<close>
  after its call of \<open>FlushFrameDump\<close>.
\<close>

definition FlushFrameDump_encode :: "swap_env \<Rightarrow> renderer \<Rightarrow> renderer" where
  "FlushFrameDump_encode E s =
     (let s1 = FinishFrameData s;
          s2 = emit [EvStagingFlush, EvStagingMap (staging_map_ok E)] s1;
          s3 = (if staging_map_ok E
                then emit [EvStagingUnmap]
                       (DumpFrameData ((staging_mapped E)\<lparr>fd_state := m_last_frame_state s2\<rparr>) s2)
                else s2)
      in s3\<lparr>m_last_frame_exported := False\<rparr>)"

definition ShutdownFrameDumping_stop :: "renderer \<Rightarrow> renderer" where
  "ShutdownFrameDumping_stop s1 =
     (if \<not> m_frame_dump_thread_running s1 then s1
      else (let s2 = FinishFrameData s1;
                s3 = emit [EvFrameDumpStartSet] (s2\<lparr>m_frame_dump_thread_running := False\<rparr>);
                s4 = (if m_frame_dump_thread_joinable s3
                      then (emit [EvThreadJoin] s3)\<lparr>m_frame_dump_thread_joinable := False\<rparr>
                      else s3)
            in s4\<lparr>m_frame_dump_render_texture := None,
                   m_frame_dump_readback_textures := (None, None)\<rparr>))"

text \<open>The events of the frame-dump functions of the render thread.\<close>

fun frame_dump_event :: "event \<Rightarrow> bool" where
  "frame_dump_event EvFrameDumpDoneWait = True"
| "frame_dump_event EvStagingFlush = True"
| "frame_dump_event (EvStagingMap b) = True"
| "frame_dump_event EvStagingUnmap = True"
| "frame_dump_event EvThreadJoin = True"
| "frame_dump_event EvThreadStart = True"
| "frame_dump_event EvFrameDumpStartSet = True"
| "frame_dump_event e = False"

text \<open>
  A state with the members that the frame-dump functions write, and the trace, set to
  fixed values: two states that agree after this agree on every other member.
\<close>

definition without_frame_dump :: "renderer \<Rightarrow> renderer" where
  "without_frame_dump s =
     s\<lparr>m_frame_dump_thread_joinable := False, m_frame_dump_thread_running := False,
       m_frame_dump_frame_running := False,
       m_frame_dump_config := \<lparr>fd_data = 0, fd_width = 0, fd_height = 0, fd_stride = 0, fd_state = 0\<rparr>,
       m_frame_dump_render_texture := None, m_frame_dump_readback_textures := (None, None),
       m_last_frame_exported := False, trace := []\<rparr>"

text \<open>The trace of \<open>s'\<close> is the trace of \<open>s\<close> followed by events that satisfy \<open>P\<close>.\<close>

definition extends_by :: "(event \<Rightarrow> bool) \<Rightarrow> renderer \<Rightarrow> renderer \<Rightarrow> bool" where
  "extends_by P s s' = (\<exists>es. trace s' = trace s @ es \<and> list_all P es)"

text \<open>
  What every call of \<open>Swap\<close> does before it looks at its arguments: the update of
  \<open>m_aspect_wide\<close>, \<open>FlushFrameDump\<close> for the frame queued by the previous presented
  frame, and the refresh-rate check. Its events, and the members it writes.
\<close>

definition Swap_prologue :: "swap_env \<Rightarrow> renderer \<Rightarrow> renderer" where
  "Swap_prologue E s = Swap_refresh_rate E (FlushFrameDump E (Swap_aspect E s))"

fun swap_prologue_event :: "event \<Rightarrow> bool" where
  "swap_prologue_event EvResetFlushAspectRatioCount = True"
| "swap_prologue_event (EvHostRequestFullscreen b r) = True"
| "swap_prologue_event (EvD3DSetFullscreenState b r) = True"
| "swap_prologue_event e = frame_dump_event e"

definition without_prologue :: "renderer \<Rightarrow> renderer" where
  "without_prologue s =
     (without_frame_dump s)\<lparr>m_aspect_wide := False, m_last_refresh_rate := 0,
                             m_fullscreen_state := False\<rparr>"

text \<open>The two members that the proofs follow through the new-frame block.\<close>

definition tracked :: "renderer \<Rightarrow> bool \<times> u64" where
  "tracked s = (m_aspect_wide s, m_last_xfb_id s)"

text \<open>
  A state with the members that the worker writes, and its trace, set to fixed
  values; the events an iteration of the worker adds; the events that write a frame
  of the continuous dump; and the screenshot block of the loop body on its own.
\<close>

definition without_worker :: "renderer \<Rightarrow> renderer" where
  "without_worker s =
     s\<lparr>m_DumpFrames := False, m_screenshot_request := False, m_screenshot_name := [],
       m_frame_dump_image_counter := 0, worker_trace := []\<rparr>"


fun frame_written :: "wevent \<Rightarrow> bool" where
  "frame_written (WAVIDumpAddFrame c) = True"
| "frame_written (WTextureToPngFrame n c) = True"
| "frame_written e = False"


text \<open>
  From \<open>s\<close> to \<open>s'\<close> the worker has written no frame and has changed no member but its
  own.
\<close>

definition worker_quiet :: "renderer \<Rightarrow> renderer \<Rightarrow> bool" where
  "worker_quiet s s' =
     (without_worker s' = without_worker s
      \<and> (\<exists>es. worker_trace s' = worker_trace s @ es \<and> list_all (\<lambda>e. \<not> frame_written e) es))"


text \<open>
  The calls that \<open>ShutdownFrameDumping\<close> makes when a job is outstanding and the worker
  is running.
\<close>

definition shutdown_events :: "swap_env \<Rightarrow> renderer \<Rightarrow> event list" where
  "shutdown_events E s =
     (if m_last_frame_exported s
      then [EvFrameDumpDoneWait, EvStagingFlush, EvStagingMap (staging_map_ok E)]
             @ (if staging_map_ok E then [EvFrameDumpStartSet, EvStagingUnmap, EvFrameDumpDoneWait]
                else [])
             @ [EvFrameDumpStartSet, EvThreadJoin]
      else [EvFrameDumpDoneWait, EvFrameDumpStartSet, EvThreadJoin])"

text \<open>
  The members that decide what \<open>FlushFrameDump\<close> and the refresh-rate check do, and
  the members that describe the frame queued for the dump.
\<close>

definition dump_flags :: "renderer \<Rightarrow> bool \<times> bool \<times> bool \<times> bool \<times> bool \<times> real" where
  "dump_flags s =
     (m_DumpFrames s, m_screenshot_request s, m_frame_dump_thread_running s,
      m_frame_dump_thread_joinable s, m_frame_dump_frame_running s, m_last_refresh_rate s)"

definition queued_frame :: "renderer \<Rightarrow> bool \<times> u64 \<times> u64" where
  "queued_frame s = (m_last_frame_exported s, m_last_frame_state s, m_last_xfb_id s)"

text \<open>
  The factor that \<open>UpdateDrawRectangle\<close> multiplies \<open>draw_width\<close> and \<open>draw_height\<close>
  with: \<open>win_height / crop_height\<close> or \<open>win_width / crop_width\<close>.
\<close>

definition draw_scale :: "swap_env \<Rightarrow> renderer \<Rightarrow> fp" where
  "draw_scale E s =
     (let win_width = float_of_int (m_backbuffer_width s);
          win_height = float_of_int (m_backbuffer_height s);
          crop_width0 = CalculateDrawAspectRatio E s;
          crop_height0 = Finite False 1;
          (crop_width, crop_height) =
            (if bCrop (g_ActiveConfig s) \<and> aspect_mode (g_ActiveConfig s) \<noteq> Stretch
             then (if fp_greater_equal (float_div crop_width0 crop_height0) (expected_aspect s)
                   then (float_mul crop_height0 (expected_aspect s), crop_height0)
                   else (crop_width0, float_div crop_width0 (expected_aspect s)))
             else (crop_width0, crop_height0))
      in if fp_greater_equal (float_div win_width win_height) (float_div crop_width crop_height)
         then float_div win_height crop_height
         else float_div win_width crop_width)"

text \<open>The exponent and the quantum that \<open>round_magnitude\<close> uses for \<open>x\<close>.\<close>

definition rm_exp :: "int \<Rightarrow> real \<Rightarrow> int" where
  "rm_exp emax x = max (ilog2 x) (1 - emax)"

definition rm_quantum :: "nat \<Rightarrow> int \<Rightarrow> real \<Rightarrow> real" where
  "rm_quantum p emax x = 2 powi (rm_exp emax x - int p + 1)"

section \<open>Concrete inputs used by the witnesses\<close>

definition K0 :: collab where
  "K0 = \<lparr>EFB_WIDTH = 640, EFB_HEIGHT = 528, MAX_XFB_WIDTH = 720, MAX_XFB_HEIGHT = 576,
          EFB_SCALE_AUTO_INTEGRAL = 0,
          GetWidth = (\<lambda>r. \<bar>right_edge r - left_edge r\<bar>),
          GetHeight = (\<lambda>r. \<bar>bottom_edge r - top_edge r\<bar>),
          GetRect = (\<lambda>c. \<lparr>left_edge = 0, top_edge = 0, right_edge = sint (cfg_width c),
                                bottom_edge = sint (cfg_height c)\<rparr>),
          ShaderHostConfig_GetCurrent =
            (\<lambda>c. (if 1 < iMultisamples c then 1 else 0) OR (if stereo_mode c = Off then 0 else 4)),
          HAVE_FFMPEG = False\<rparr>"

definition cfg0 :: VideoConfig where
  "cfg0 = \<lparr>aspect_mode = Auto, suggested_aspect_mode = Auto, bCrop = False,
            bWidescreenHack = False, stereo_mode = Off, iMultisamples = 1, iMaxAnisotropy = 0,
            bForceFiltering = False, bVSyncActive = False, bBBoxEnable = False, iEFBScale = 1,
            MaxTextureSize = 16384, bSyncRefreshRate = False,
            bInternalResolutionFrameDumps = False, bDumpFramesAsImages = True,
            bBorderlessFullscreen = False\<rparr>"

definition s0 :: renderer where
  "s0 = \<lparr>g_ActiveConfig = cfg0, frameCount = 0, fAspectRatioHackW = Finite False 1,
          fAspectRatioHackH = Finite False 1,
          iSaveTargetId = 0, m_DumpFrames = False, m_screenshot_request = False,
          m_aspect_wide = False, m_target_width = 640, m_target_height = 528,
          m_backbuffer_width = 640, m_backbuffer_height = 480,
          m_target_rectangle = \<lparr>left_edge = 0, top_edge = 0, right_edge = 640, bottom_edge = 480\<rparr>,
          m_last_refresh_rate = 60, m_fullscreen_state = False, m_new_surface_handle = 0,
          m_surface_changed = False, m_surface_resized = False, m_last_fullscreen_state = False,
          m_efb_scale = 1, m_last_window_request_width = 0, m_last_window_request_height = 0,
          m_frame_dump_thread_joinable = False, m_frame_dump_thread_running = False,
          m_frame_dump_frame_running = False,
          m_frame_dump_config = \<lparr>fd_data = 0, fd_width = 0, fd_height = 0, fd_stride = 0, fd_state = 0\<rparr>,
          m_frame_dump_render_texture = None, m_frame_dump_readback_textures = (None, None),
          m_last_frame_state = 0, m_last_frame_exported = False, m_last_xfb_texture = None,
          m_last_xfb_id = - 1, m_last_xfb_ticks = 0,
          m_last_xfb_region = \<lparr>left_edge = 0, top_edge = 0, right_edge = 0, bottom_edge = 0\<rparr>,
          m_last_xfb_width = 720, m_last_xfb_height = 576,
          d3d_swapchain = Some (640, 480), m_screenshot_name = [], m_frame_dump_image_counter = 0,
          trace = [], worker_trace = []\<rparr>"

definition E0 :: swap_env where
  "E0 = \<lparr>bWii = False, SYSCONF_WIDESCREEN = False, flush_count_4_3 = 1,
          flush_count_anamorphic = 9, GetTargetFractionalRefreshRate = 60,
          GetAspectRatio = float_div (Finite False 4) (Finite False 3),
          xfb_entry = Some \<lparr>entry_id = 7, native_width = 640, texture = 1,
                             texture_config = \<lparr>cfg_width = 640, cfg_height = 480\<rparr>\<rparr>,
          staging_map_ok = True,
          staging_mapped = \<lparr>fd_data = 1, fd_width = 640, fd_height = 480, fd_stride = 2560, fd_state = 0\<rparr>,
          FetchState = (\<lambda>t. t), UpdateActiveConfig = cfg0,
          d3d_GetFullscreenState = False, d3d_SetFullscreenState_ok = True,
          d3d_Reset = (\<lambda>h. if h = 0 then None else Some (800, 600)),
          d3d_ResizeSwapChain = (800, 600)\<rparr>"





text \<open>
  The state after a first presented frame with continuous frame dumping switched on:
  \<open>DumpCurrentFrame\<close> has queued the readback of that frame.
\<close>

definition s_frame_queued :: renderer where
  "s_frame_queued = Swap K0 E0 4096 640 640 480 0 (s0\<lparr>m_DumpFrames := True\<rparr>)"

section \<open>Properties of configuration-change detection\<close>

lemma trace_emit: "trace (emit es s) = trace s @ es"
  by (simp add: emit_def)

lemmas config_change_bit_defs =
  CONFIG_CHANGE_BIT_HOST_CONFIG_def CONFIG_CHANGE_BIT_MULTISAMPLES_def
  CONFIG_CHANGE_BIT_STEREO_MODE_def CONFIG_CHANGE_BIT_TARGET_SIZE_def
  CONFIG_CHANGE_BIT_ANISOTROPY_def CONFIG_CHANGE_BIT_FORCE_TEXTURE_FILTERING_def
  CONFIG_CHANGE_BIT_VSYNC_def CONFIG_CHANGE_BIT_BBOX_def

lemma or_if_bit: "(if c then b OR X else b) = b OR (if c then X else (0::u32))"
  by simp

text \<open>The mask is the union of one contribution per tracked field.\<close>

lemma changed_bits_union:
  "changed_bits K old new tc =
     (if ShaderHostConfig_GetCurrent K old \<noteq> ShaderHostConfig_GetCurrent K new
        then CONFIG_CHANGE_BIT_HOST_CONFIG else 0)
  OR (if stereo_mode old \<noteq> stereo_mode new then CONFIG_CHANGE_BIT_STEREO_MODE else 0)
  OR (if iMultisamples old \<noteq> iMultisamples new then CONFIG_CHANGE_BIT_MULTISAMPLES else 0)
  OR (if iMaxAnisotropy old \<noteq> iMaxAnisotropy new then CONFIG_CHANGE_BIT_ANISOTROPY else 0)
  OR (if bForceFiltering old \<noteq> bForceFiltering new
        then CONFIG_CHANGE_BIT_FORCE_TEXTURE_FILTERING else 0)
  OR (if bVSyncActive old \<noteq> bVSyncActive new then CONFIG_CHANGE_BIT_VSYNC else 0)
  OR (if bBBoxEnable old \<noteq> bBBoxEnable new then CONFIG_CHANGE_BIT_BBOX else 0)
  OR (if tc then CONFIG_CHANGE_BIT_TARGET_SIZE else 0)"
  unfolding changed_bits_def Let_def
  apply (simp only: or_if_bit)
  apply (simp only: or.left_neutral or.assoc)
  done

lemma bit_if_single:
  "k < 32 \<Longrightarrow> bit (if c then push_bit k 1 else (0::u32)) n \<longleftrightarrow> (n = k \<and> c)"
  by (auto simp add: bit_exp_iff)

lemma changed_bits_zero:
  "changed_bits K old new tc = 0 \<longleftrightarrow>
   (ShaderHostConfig_GetCurrent K old = ShaderHostConfig_GetCurrent K new
    \<and> stereo_mode old = stereo_mode new \<and> iMultisamples old = iMultisamples new
    \<and> iMaxAnisotropy old = iMaxAnisotropy new \<and> bForceFiltering old = bForceFiltering new
    \<and> bVSyncActive old = bVSyncActive new \<and> bBBoxEnable old = bBBoxEnable new \<and> \<not> tc)"
  unfolding changed_bits_union
  by (simp add: or_eq_0_iff config_change_bit_defs)

lemma changed_bits_bit:
  "bit (changed_bits K old new tc) n \<longleftrightarrow>
   (n = 0 \<and> ShaderHostConfig_GetCurrent K old \<noteq> ShaderHostConfig_GetCurrent K new)
 \<or> (n = 1 \<and> iMultisamples old \<noteq> iMultisamples new)
 \<or> (n = 2 \<and> stereo_mode old \<noteq> stereo_mode new)
 \<or> (n = 3 \<and> tc)
 \<or> (n = 4 \<and> iMaxAnisotropy old \<noteq> iMaxAnisotropy new)
 \<or> (n = 5 \<and> bForceFiltering old \<noteq> bForceFiltering new)
 \<or> (n = 6 \<and> bVSyncActive old \<noteq> bVSyncActive new)
 \<or> (n = 7 \<and> bBBoxEnable old \<noteq> bBBoxEnable new)"
  unfolding changed_bits_union config_change_bit_defs
  apply (simp only: bit_or_iff bit_if_single)
  apply (simp add: bit_if_single)
  apply blast
  done

text \<open>
  C4. The mask that \<open>CheckForConfigChanges\<close> computes is \<open>0\<close> exactly when no tracked
  field differs between the snapshot taken before \<open>UpdateActiveConfig\<close> and the
  refreshed configuration and \<open>CalculateTargetSize\<close> reports no change; and bit \<open>n\<close>
  of the mask is set exactly when \<open>n\<close> is the position of a tracked field (host config
  0, multisamples 1, stereo mode 2, target size 3, anisotropy 4, forced filtering 5,
  vsync 6, bounding box 7) and that field differs.
\<close>

theorem C4_change_mask_zero_iff_unchanged:
  "(ConfigChangeMask K new_config s = 0 \<longleftrightarrow>
      (ShaderHostConfig_GetCurrent K (g_ActiveConfig s) = ShaderHostConfig_GetCurrent K new_config
       \<and> stereo_mode (g_ActiveConfig s) = stereo_mode new_config
       \<and> iMultisamples (g_ActiveConfig s) = iMultisamples new_config
       \<and> iMaxAnisotropy (g_ActiveConfig s) = iMaxAnisotropy new_config
       \<and> bForceFiltering (g_ActiveConfig s) = bForceFiltering new_config
       \<and> bVSyncActive (g_ActiveConfig s) = bVSyncActive new_config
       \<and> bBBoxEnable (g_ActiveConfig s) = bBBoxEnable new_config
       \<and> \<not> target_changed K new_config s))
   \<and> (\<forall>n. bit (ConfigChangeMask K new_config s) n \<longleftrightarrow>
        (n = 0 \<and> ShaderHostConfig_GetCurrent K (g_ActiveConfig s)
                    \<noteq> ShaderHostConfig_GetCurrent K new_config)
      \<or> (n = 1 \<and> iMultisamples (g_ActiveConfig s) \<noteq> iMultisamples new_config)
      \<or> (n = 2 \<and> stereo_mode (g_ActiveConfig s) \<noteq> stereo_mode new_config)
      \<or> (n = 3 \<and> target_changed K new_config s)
      \<or> (n = 4 \<and> iMaxAnisotropy (g_ActiveConfig s) \<noteq> iMaxAnisotropy new_config)
      \<or> (n = 5 \<and> bForceFiltering (g_ActiveConfig s) \<noteq> bForceFiltering new_config)
      \<or> (n = 6 \<and> bVSyncActive (g_ActiveConfig s) \<noteq> bVSyncActive new_config)
      \<or> (n = 7 \<and> bBBoxEnable (g_ActiveConfig s) \<noteq> bBBoxEnable new_config))"
  unfolding ConfigChangeMask_def
  using changed_bits_zero [of K "g_ActiveConfig s" new_config "target_changed K new_config s"]
    changed_bits_bit [of K "g_ActiveConfig s" new_config "target_changed K new_config s"]
  by blast

theorem C4_witness:
  "bit (ConfigChangeMask K0 (cfg0\<lparr>bVSyncActive := True\<rparr>) s0) 6
   \<and> \<not> bit (ConfigChangeMask K0 (cfg0\<lparr>bVSyncActive := True\<rparr>) s0) 0
   \<and> ConfigChangeMask K0 (cfg0\<lparr>bVSyncActive := True\<rparr>) s0 \<noteq> 0
   \<and> ConfigChangeMask K0 cfg0 s0 = 0"
proof -
  have tc0: "\<not> target_changed K0 (cfg0\<lparr>bVSyncActive := True\<rparr>) s0"
    by (simp add: target_changed_def CalculateTargetSize_def CalculateTargetScale_def Let_def
        K0_def cfg0_def s0_def emit_def)
  have tc1: "\<not> target_changed K0 cfg0 s0"
    by (simp add: target_changed_def CalculateTargetSize_def CalculateTargetScale_def Let_def K0_def cfg0_def s0_def emit_def)
  show ?thesis
    using C4_change_mask_zero_iff_unchanged [of K0 "cfg0\<lparr>bVSyncActive := True\<rparr>" s0]
      C4_change_mask_zero_iff_unchanged [of K0 cfg0 s0] tc0 tc1
    by (simp add: K0_def cfg0_def s0_def)
qed

lemma word_nz_bit: "(w::32 word) \<noteq> 0 \<longleftrightarrow> (\<exists>n. bit w n)"
proof
  assume "w \<noteq> 0"
  show "\<exists>n. bit w n"
  proof (rule ccontr)
    assume "\<not> (\<exists>n. bit w n)"
    then have "w = 0" by (intro bit_eqI) simp
    with \<open>w \<noteq> 0\<close> show False by simp
  qed
next
  assume "\<exists>n. bit w n"
  then show "w \<noteq> 0" by auto
qed

lemma CalculateTargetSize_trace:
  "trace (snd (CalculateTargetSize K s)) =
     trace s @ (if fst (CalculateTargetSize K s) then [EvSetEfbScaleChanged] else [])"
  by (simp add: CalculateTargetSize_def CalculateTargetScale_def Let_def emit_def)

lemma CalculateTargetSize_config:
  "g_ActiveConfig (snd (CalculateTargetSize K s)) = g_ActiveConfig s"
  by (simp add: CalculateTargetSize_def CalculateTargetScale_def Let_def emit_def)

lemma CalculateTargetSize_emit:
  "fst (CalculateTargetSize K (emit es s)) = fst (CalculateTargetSize K s)"
  by (simp add: CalculateTargetSize_def CalculateTargetScale_def Let_def emit_def)

lemma CheckForConfigChanges_trace:
  "trace (CheckForConfigChanges K new_config s) =
     trace s @ [EvTextureCacheOnConfigChanged]
       @ (if target_changed K new_config s then [EvSetEfbScaleChanged] else [])
       @ (if ConfigChangeMask K new_config s = 0 then []
          else EvOnConfigChanged (ConfigChangeMask K new_config s) #
               (if ConfigChangeMask K new_config s
                     AND (CONFIG_CHANGE_BIT_HOST_CONFIG OR CONFIG_CHANGE_BIT_MULTISAMPLES) \<noteq> 0
                then [EvOSDAddMessage, EvSetPipelineNull, EvInvalidatePipelineObject,
                      EvSetHostConfig (ShaderHostConfig_GetCurrent K new_config)
                        (iMultisamples new_config)]
                else []))"
proof -
  let ?s2 = "emit [EvTextureCacheOnConfigChanged] (s\<lparr>g_ActiveConfig := new_config\<rparr>)"
  obtain tc s3 where cts: "CalculateTargetSize K ?s2 = (tc, s3)"
    by (cases "CalculateTargetSize K ?s2")
  have tc: "tc = target_changed K new_config s"
    using cts CalculateTargetSize_emit [of K "[EvTextureCacheOnConfigChanged]" "s\<lparr>g_ActiveConfig := new_config\<rparr>"]
    by (simp add: target_changed_def)
  have tr: "trace s3 = trace s @ [EvTextureCacheOnConfigChanged] @ (if tc then [EvSetEfbScaleChanged] else [])"
    using cts CalculateTargetSize_trace [of K ?s2] by (simp add: emit_def)
  have cfg: "g_ActiveConfig s3 = new_config"
    using cts CalculateTargetSize_config [of K ?s2] by (simp add: emit_def)
  have g2: "g_ActiveConfig ?s2 = new_config" by (simp add: emit_def)
  show ?thesis
    unfolding CheckForConfigChanges_def Let_def cts g2 prod.case ConfigChangeMask_def
    by (simp add: emit_def tr cfg tc [symmetric])
qed

lemma host_ms_bit:
  "bit (CONFIG_CHANGE_BIT_HOST_CONFIG OR CONFIG_CHANGE_BIT_MULTISAMPLES) n \<longleftrightarrow> n = 0 \<or> n = 1"
  unfolding bit_or_iff CONFIG_CHANGE_BIT_HOST_CONFIG_def CONFIG_CHANGE_BIT_MULTISAMPLES_def
  using bit_if_single [of 0 True n] bit_if_single [of 1 True n] by auto

lemma mask_and_host_ms:
  "ConfigChangeMask K new_config s
      AND (CONFIG_CHANGE_BIT_HOST_CONFIG OR CONFIG_CHANGE_BIT_MULTISAMPLES) \<noteq> 0 \<longleftrightarrow>
   (ShaderHostConfig_GetCurrent K (g_ActiveConfig s) \<noteq> ShaderHostConfig_GetCurrent K new_config
    \<or> iMultisamples (g_ActiveConfig s) \<noteq> iMultisamples new_config)"
proof -
  let ?m = "ConfigChangeMask K new_config s"
  have b0: "bit ?m 0 \<longleftrightarrow>
      ShaderHostConfig_GetCurrent K (g_ActiveConfig s) \<noteq> ShaderHostConfig_GetCurrent K new_config"
    unfolding ConfigChangeMask_def
    using changed_bits_bit [of K "g_ActiveConfig s" new_config "target_changed K new_config s" 0]
    by simp
  have b1: "bit ?m 1 \<longleftrightarrow> iMultisamples (g_ActiveConfig s) \<noteq> iMultisamples new_config"
    unfolding ConfigChangeMask_def
    using changed_bits_bit [of K "g_ActiveConfig s" new_config "target_changed K new_config s" 1]
    by simp
  have "?m AND (CONFIG_CHANGE_BIT_HOST_CONFIG OR CONFIG_CHANGE_BIT_MULTISAMPLES) \<noteq> 0
        \<longleftrightarrow> (\<exists>n. bit (?m AND (CONFIG_CHANGE_BIT_HOST_CONFIG OR CONFIG_CHANGE_BIT_MULTISAMPLES)) n)"
    by (rule word_nz_bit)
  also have "\<dots> \<longleftrightarrow> (\<exists>n. bit ?m n \<and> (n = 0 \<or> n = 1))"
    unfolding bit_and_iff host_ms_bit by (rule refl)
  also have "\<dots> \<longleftrightarrow> bit ?m 0 \<or> bit ?m 1"
    by blast
  finally show ?thesis
    unfolding b0 b1 .
qed

lemma mask_vsync_only:
  assumes "ShaderHostConfig_GetCurrent K (g_ActiveConfig s) = ShaderHostConfig_GetCurrent K new_config"
    and "stereo_mode (g_ActiveConfig s) = stereo_mode new_config"
    and "iMultisamples (g_ActiveConfig s) = iMultisamples new_config"
    and "iMaxAnisotropy (g_ActiveConfig s) = iMaxAnisotropy new_config"
    and "bForceFiltering (g_ActiveConfig s) = bForceFiltering new_config"
    and "bBBoxEnable (g_ActiveConfig s) = bBBoxEnable new_config"
    and "bVSyncActive (g_ActiveConfig s) \<noteq> bVSyncActive new_config"
    and "\<not> target_changed K new_config s"
  shows "ConfigChangeMask K new_config s = CONFIG_CHANGE_BIT_VSYNC"
  using assms unfolding ConfigChangeMask_def changed_bits_union by simp

text \<open>
  C5. When only \<open>bVSyncActive\<close> differs between the snapshot and the refreshed
  configuration and \<open>CalculateTargetSize\<close> reports no change, the mask is exactly
  \<open>CONFIG_CHANGE_BIT_VSYNC\<close> and the call does nothing but notify the texture cache and
  forward that mask to \<open>OnConfigChanged\<close>. In every call, \<open>OnConfigChanged\<close> receives the
  computed mask when it is not zero, and \<open>SetPipeline(nullptr)\<close>,
  \<open>InvalidatePipelineObject\<close> and \<open>SetHostConfig\<close> are issued exactly when the mask has
  the host-config or the multisample bit.
\<close>

theorem C5_vsync_only_forwards_mask_without_invalidation:
  "((ShaderHostConfig_GetCurrent K (g_ActiveConfig s) = ShaderHostConfig_GetCurrent K new_config
      \<and> stereo_mode (g_ActiveConfig s) = stereo_mode new_config
      \<and> iMultisamples (g_ActiveConfig s) = iMultisamples new_config
      \<and> iMaxAnisotropy (g_ActiveConfig s) = iMaxAnisotropy new_config
      \<and> bForceFiltering (g_ActiveConfig s) = bForceFiltering new_config
      \<and> bBBoxEnable (g_ActiveConfig s) = bBBoxEnable new_config
      \<and> bVSyncActive (g_ActiveConfig s) \<noteq> bVSyncActive new_config
      \<and> \<not> target_changed K new_config s)
     \<longrightarrow> ConfigChangeMask K new_config s = CONFIG_CHANGE_BIT_VSYNC
         \<and> new_events s (CheckForConfigChanges K new_config s) =
             [EvTextureCacheOnConfigChanged, EvOnConfigChanged CONFIG_CHANGE_BIT_VSYNC])
   \<and> (EvOnConfigChanged m \<in> set (new_events s (CheckForConfigChanges K new_config s))
        \<longleftrightarrow> m = ConfigChangeMask K new_config s \<and> m \<noteq> 0)
   \<and> (EvSetPipelineNull \<in> set (new_events s (CheckForConfigChanges K new_config s))
        \<longleftrightarrow> ConfigChangeMask K new_config s
              AND (CONFIG_CHANGE_BIT_HOST_CONFIG OR CONFIG_CHANGE_BIT_MULTISAMPLES) \<noteq> 0)
   \<and> (EvInvalidatePipelineObject \<in> set (new_events s (CheckForConfigChanges K new_config s))
        \<longleftrightarrow> ConfigChangeMask K new_config s
              AND (CONFIG_CHANGE_BIT_HOST_CONFIG OR CONFIG_CHANGE_BIT_MULTISAMPLES) \<noteq> 0)
   \<and> ((\<exists>h n. EvSetHostConfig h n \<in> set (new_events s (CheckForConfigChanges K new_config s)))
        \<longleftrightarrow> ConfigChangeMask K new_config s
              AND (CONFIG_CHANGE_BIT_HOST_CONFIG OR CONFIG_CHANGE_BIT_MULTISAMPLES) \<noteq> 0)"
proof -
  have nz: "ConfigChangeMask K new_config s
              AND (CONFIG_CHANGE_BIT_HOST_CONFIG OR CONFIG_CHANGE_BIT_MULTISAMPLES) \<noteq> 0
            \<Longrightarrow> ConfigChangeMask K new_config s \<noteq> 0"
    by auto
  have vs: "CONFIG_CHANGE_BIT_VSYNC \<noteq> 0"
      "CONFIG_CHANGE_BIT_VSYNC AND (CONFIG_CHANGE_BIT_HOST_CONFIG OR CONFIG_CHANGE_BIT_MULTISAMPLES) = 0"
    by (simp_all add: config_change_bit_defs)
  show ?thesis
    unfolding new_events_def CheckForConfigChanges_trace
    using nz vs mask_vsync_only [of K s new_config]
    by auto
qed

theorem C5_witness:
  "ConfigChangeMask K0 (cfg0\<lparr>bVSyncActive := True\<rparr>) s0 = CONFIG_CHANGE_BIT_VSYNC
   \<and> new_events s0 (CheckForConfigChanges K0 (cfg0\<lparr>bVSyncActive := True\<rparr>) s0) =
       [EvTextureCacheOnConfigChanged, EvOnConfigChanged CONFIG_CHANGE_BIT_VSYNC]
   \<and> EvInvalidatePipelineObject
       \<notin> set (new_events s0 (CheckForConfigChanges K0 (cfg0\<lparr>bVSyncActive := True\<rparr>) s0))"
proof -
  have tc: "\<not> target_changed K0 (cfg0\<lparr>bVSyncActive := True\<rparr>) s0"
    by (simp add: target_changed_def CalculateTargetSize_def CalculateTargetScale_def Let_def
        K0_def cfg0_def s0_def emit_def)
  have g: "g_ActiveConfig s0 = cfg0" by (simp add: s0_def)
  have pre: "ShaderHostConfig_GetCurrent K0 (g_ActiveConfig s0) = ShaderHostConfig_GetCurrent K0 (cfg0\<lparr>bVSyncActive := True\<rparr>)
      \<and> stereo_mode (g_ActiveConfig s0) = stereo_mode (cfg0\<lparr>bVSyncActive := True\<rparr>)
      \<and> iMultisamples (g_ActiveConfig s0) = iMultisamples (cfg0\<lparr>bVSyncActive := True\<rparr>)
      \<and> iMaxAnisotropy (g_ActiveConfig s0) = iMaxAnisotropy (cfg0\<lparr>bVSyncActive := True\<rparr>)
      \<and> bForceFiltering (g_ActiveConfig s0) = bForceFiltering (cfg0\<lparr>bVSyncActive := True\<rparr>)
      \<and> bBBoxEnable (g_ActiveConfig s0) = bBBoxEnable (cfg0\<lparr>bVSyncActive := True\<rparr>)
      \<and> bVSyncActive (g_ActiveConfig s0) \<noteq> bVSyncActive (cfg0\<lparr>bVSyncActive := True\<rparr>)
      \<and> \<not> target_changed K0 (cfg0\<lparr>bVSyncActive := True\<rparr>) s0"
    using tc by (simp add: g) (simp add: K0_def cfg0_def)
  from C5_vsync_only_forwards_mask_without_invalidation
         [of K0 s0 "cfg0\<lparr>bVSyncActive := True\<rparr>" 0] pre
  have a: "ConfigChangeMask K0 (cfg0\<lparr>bVSyncActive := True\<rparr>) s0 = CONFIG_CHANGE_BIT_VSYNC"
    and b: "new_events s0 (CheckForConfigChanges K0 (cfg0\<lparr>bVSyncActive := True\<rparr>) s0) =
       [EvTextureCacheOnConfigChanged, EvOnConfigChanged CONFIG_CHANGE_BIT_VSYNC]"
    by blast+
  show ?thesis using a b by simp
qed

section \<open>Properties of frame dumping on the render thread\<close>

lemma FlushFrameDump_not_exported:
  "\<not> m_last_frame_exported s \<Longrightarrow> FlushFrameDump E s = s"
  by (simp add: FlushFrameDump.simps)

lemma ShutdownFrameDumping_eq:
  "ShutdownFrameDumping E s = ShutdownFrameDumping_stop (FlushFrameDump E s)"
  by (simp add: ShutdownFrameDumping.simps [of E s] ShutdownFrameDumping_stop_def Let_def)

lemma FlushFrameDump_encode_exported:
  "\<not> m_last_frame_exported (FlushFrameDump_encode E s)"
  by (simp add: FlushFrameDump_encode_def Let_def)

lemma FlushFrameDump_eq:
  "FlushFrameDump E s =
     (if \<not> m_last_frame_exported s then s
      else if \<not> IsFrameDumping (FlushFrameDump_encode E s)
           then ShutdownFrameDumping_stop (FlushFrameDump_encode E s)
           else FlushFrameDump_encode E s)"
proof (cases "m_last_frame_exported s")
  case False
  then show ?thesis by (simp add: FlushFrameDump_not_exported)
next
  case True
  have "FlushFrameDump E s =
          (if \<not> IsFrameDumping (FlushFrameDump_encode E s)
           then ShutdownFrameDumping E (FlushFrameDump_encode E s)
           else FlushFrameDump_encode E s)"
    using True
    by (simp add: FlushFrameDump.simps [of E s] FlushFrameDump_encode_def Let_def)
  then show ?thesis
    using True
    by (simp add: ShutdownFrameDumping_eq
        FlushFrameDump_not_exported [OF FlushFrameDump_encode_exported])
qed

lemma new_events_emit: "new_events s (emit es s) = es"
  by (simp add: new_events_def emit_def)

lemma FinishFrameData_wfd: "without_frame_dump (FinishFrameData s) = without_frame_dump s"
  by (simp add: FinishFrameData_def without_frame_dump_def emit_def)

lemma DumpFrameData_wfd: "without_frame_dump (DumpFrameData c s) = without_frame_dump s"
  by (simp add: DumpFrameData_def without_frame_dump_def emit_def Let_def)

lemma emit_wfd: "without_frame_dump (emit es s) = without_frame_dump s"
  by (simp add: without_frame_dump_def emit_def)

lemma FlushFrameDump_encode_wfd:
  "without_frame_dump (FlushFrameDump_encode E s) = without_frame_dump s"
proof -
  have a: "without_frame_dump (s'\<lparr>m_last_frame_exported := False\<rparr>) = without_frame_dump s'" for s'
    by (simp add: without_frame_dump_def)
  show ?thesis
    by (simp add: FlushFrameDump_encode_def Let_def a emit_wfd DumpFrameData_wfd FinishFrameData_wfd)
qed

lemma ShutdownFrameDumping_stop_wfd:
  "without_frame_dump (ShutdownFrameDumping_stop s) = without_frame_dump s"
  by (simp add: ShutdownFrameDumping_stop_def FinishFrameData_def without_frame_dump_def emit_def Let_def)

lemma FlushFrameDump_wfd: "without_frame_dump (FlushFrameDump E s) = without_frame_dump s"
  by (simp add: FlushFrameDump_eq ShutdownFrameDumping_stop_wfd FlushFrameDump_encode_wfd)

lemma ShutdownFrameDumping_wfd: "without_frame_dump (ShutdownFrameDumping E s) = without_frame_dump s"
  by (simp add: ShutdownFrameDumping_eq ShutdownFrameDumping_stop_wfd FlushFrameDump_wfd)

lemma extends_by_refl: "extends_by P s s"
  by (simp add: extends_by_def)

lemma extends_by_trans: "extends_by P s s' \<Longrightarrow> extends_by P s' s'' \<Longrightarrow> extends_by P s s''"
  by (auto simp add: extends_by_def)

lemma extends_by_emit: "list_all P es \<Longrightarrow> extends_by P s (emit es s)"
  by (simp add: extends_by_def emit_def)

lemma extends_by_trace_eq: "trace s'' = trace s' \<Longrightarrow> extends_by P s s' \<Longrightarrow> extends_by P s s''"
  by (simp add: extends_by_def)

lemma FinishFrameData_ext: "extends_by frame_dump_event s (FinishFrameData s)"
  by (simp add: FinishFrameData_def extends_by_def emit_def)

lemma DumpFrameData_ext: "extends_by frame_dump_event s (DumpFrameData c s)"
  by (simp add: DumpFrameData_def extends_by_def emit_def Let_def)

lemma FlushFrameDump_encode_ext: "extends_by frame_dump_event s (FlushFrameDump_encode E s)"
proof -
  let ?s1 = "FinishFrameData s"
  let ?s2 = "emit [EvStagingFlush, EvStagingMap (staging_map_ok E)] ?s1"
  let ?c = "(staging_mapped E)\<lparr>fd_state := m_last_frame_state ?s2\<rparr>"
  let ?s3 = "if staging_map_ok E then emit [EvStagingUnmap] (DumpFrameData ?c ?s2) else ?s2"
  have 1: "extends_by frame_dump_event s ?s2"
    by (rule extends_by_trans [OF FinishFrameData_ext]) (simp add: extends_by_emit)
  have "extends_by frame_dump_event (DumpFrameData ?c ?s2)
          (emit [EvStagingUnmap] (DumpFrameData ?c ?s2))"
    by (simp add: extends_by_emit)
  with DumpFrameData_ext [where c = "?c" and s = "?s2"]
  have "extends_by frame_dump_event ?s2 (emit [EvStagingUnmap] (DumpFrameData ?c ?s2))"
    by (rule extends_by_trans)
  then have 2: "extends_by frame_dump_event ?s2 ?s3"
    by (cases "staging_map_ok E") (simp_all add: extends_by_refl)
  have 3: "trace (FlushFrameDump_encode E s) = trace ?s3"
    by (simp add: FlushFrameDump_encode_def Let_def)
  show ?thesis
    by (rule extends_by_trace_eq [OF 3 extends_by_trans [OF 1 2]])
qed

lemma ShutdownFrameDumping_stop_ext: "extends_by frame_dump_event s (ShutdownFrameDumping_stop s)"
  by (simp add: ShutdownFrameDumping_stop_def FinishFrameData_def extends_by_def emit_def Let_def)

lemma FlushFrameDump_ext: "extends_by frame_dump_event s (FlushFrameDump E s)"
  by (auto simp add: FlushFrameDump_eq intro: extends_by_refl FlushFrameDump_encode_ext
      extends_by_trans [OF FlushFrameDump_encode_ext ShutdownFrameDumping_stop_ext])

lemma ShutdownFrameDumping_ext: "extends_by frame_dump_event s (ShutdownFrameDumping E s)"
  unfolding ShutdownFrameDumping_eq
  by (rule extends_by_trans [OF FlushFrameDump_ext ShutdownFrameDumping_stop_ext])

lemma frame_dump_event_prologue: "frame_dump_event e \<Longrightarrow> swap_prologue_event e"
  by (cases e) simp_all

lemma extends_by_mono:
  "extends_by P s s' \<Longrightarrow> (\<And>e. P e \<Longrightarrow> Q e) \<Longrightarrow> extends_by Q s s'"
  by (auto simp add: extends_by_def list_all_iff)

lemma Swap_aspect_ext: "extends_by swap_prologue_event s (Swap_aspect E s)"
  by (simp add: Swap_aspect_def Let_def extends_by_def emit_def)

lemma Swap_refresh_rate_ext: "extends_by swap_prologue_event s (Swap_refresh_rate E s)"
  by (simp add: Swap_refresh_rate_def ChangeFullscreenState_def ChangeFullscreenState_base_def
      Let_def extends_by_def emit_def)

lemma Swap_prologue_ext: "extends_by swap_prologue_event s (Swap_prologue E s)"
  unfolding Swap_prologue_def
  by (rule extends_by_trans [OF Swap_aspect_ext
        extends_by_trans [OF extends_by_mono [OF FlushFrameDump_ext frame_dump_event_prologue]
          Swap_refresh_rate_ext]])

lemma without_prologue_wfd:
  "without_frame_dump s = without_frame_dump s' \<Longrightarrow> without_prologue s = without_prologue s'"
  by (simp add: without_prologue_def)

lemma Swap_aspect_wp: "without_prologue (Swap_aspect E s) = without_prologue s"
  by (simp add: Swap_aspect_def Let_def without_prologue_def without_frame_dump_def emit_def)

lemma Swap_refresh_rate_wp: "without_prologue (Swap_refresh_rate E s) = without_prologue s"
  by (simp add: Swap_refresh_rate_def ChangeFullscreenState_def ChangeFullscreenState_base_def
      Let_def without_prologue_def without_frame_dump_def emit_def)

lemma Swap_prologue_wp: "without_prologue (Swap_prologue E s) = without_prologue s"
  unfolding Swap_prologue_def
  by (simp add: Swap_refresh_rate_wp Swap_aspect_wp without_prologue_wfd [OF FlushFrameDump_wfd])

lemma wp_frameCount: "frameCount s = frameCount (without_prologue s)"
  by (simp add: without_prologue_def without_frame_dump_def)

lemma wp_m_last_xfb_id: "m_last_xfb_id s = m_last_xfb_id (without_prologue s)"
  by (simp add: without_prologue_def without_frame_dump_def)

lemma wp_m_last_xfb_width: "m_last_xfb_width s = m_last_xfb_width (without_prologue s)"
  by (simp add: without_prologue_def without_frame_dump_def)

lemma wp_m_last_xfb_height: "m_last_xfb_height s = m_last_xfb_height (without_prologue s)"
  by (simp add: without_prologue_def without_frame_dump_def)

lemma Swap_prologue_frameCount: "frameCount (Swap_prologue E s) = frameCount s"
  using wp_frameCount [of "Swap_prologue E s"] wp_frameCount [of s] by (simp add: Swap_prologue_wp)

lemma Swap_prologue_m_last_xfb_id: "m_last_xfb_id (Swap_prologue E s) = m_last_xfb_id s"
  using wp_m_last_xfb_id [of "Swap_prologue E s"] wp_m_last_xfb_id [of s]
  by (simp add: Swap_prologue_wp)

lemma Swap_prologue_m_last_xfb_width: "m_last_xfb_width (Swap_prologue E s) = m_last_xfb_width s"
  using wp_m_last_xfb_width [of "Swap_prologue E s"] wp_m_last_xfb_width [of s]
  by (simp add: Swap_prologue_wp)

lemma Swap_prologue_m_last_xfb_height: "m_last_xfb_height (Swap_prologue E s) = m_last_xfb_height s"
  using wp_m_last_xfb_height [of "Swap_prologue E s"] wp_m_last_xfb_height [of s]
  by (simp add: Swap_prologue_wp)

lemma Swap_zero:
  "xfbAddr = 0 \<or> fbWidth = 0 \<or> fbStride = 0 \<or> fbHeight = 0 \<Longrightarrow>
   Swap K E xfbAddr fbWidth fbStride fbHeight ticks s = emit [EvFlush] (Swap_prologue E s)"
  by (auto simp add: Swap_def Swap_prologue_def Let_def)

lemma Swap_dedup:
  "xfbAddr \<noteq> 0 \<Longrightarrow> fbWidth \<noteq> 0 \<Longrightarrow> fbStride \<noteq> 0 \<Longrightarrow> fbHeight \<noteq> 0 \<Longrightarrow>
   xfb_entry E = Some e \<Longrightarrow> entry_id e = m_last_xfb_id s \<Longrightarrow>
   Swap K E xfbAddr fbWidth fbStride fbHeight ticks s =
     (emit [EvGetXFBTexture xfbAddr fbStride fbHeight, EvFlush] (Swap_prologue E s))
       \<lparr>m_last_xfb_width :=
          (if fbStride < 1 \<or> MAX_XFB_WIDTH K < fbStride then MAX_XFB_WIDTH K else fbStride),
        m_last_xfb_height :=
          (if fbHeight < 1 \<or> MAX_XFB_HEIGHT K < fbHeight then MAX_XFB_HEIGHT K else fbHeight)\<rparr>"
  using Swap_prologue_m_last_xfb_id [of E s]
  by (simp add: Swap_def Swap_prologue_def Let_def emit_def)

lemma new_events_prologue_emit:
  "\<exists>pre. new_events s (emit es (Swap_prologue E s)) = pre @ es \<and> list_all swap_prologue_event pre"
  using Swap_prologue_ext [of s E]
  by (auto simp add: extends_by_def new_events_def emit_def)

lemma tracked_emit: "tracked (emit es s) = tracked s"
  by (simp add: tracked_def emit_def)

lemma tracked_UpdateBackbufferSize: "tracked (UpdateBackbufferSize s) = tracked s"
  by (simp add: tracked_def UpdateBackbufferSize_def split: option.splits)

lemma tracked_CheckForSurfaceChange: "tracked (CheckForSurfaceChange E s) = tracked s"
  by (simp add: CheckForSurfaceChange_def Let_def tracked_UpdateBackbufferSize)
     (simp add: tracked_def emit_def)

lemma tracked_CheckForSurfaceResize: "tracked (CheckForSurfaceResize E s) = tracked s"
  by (simp add: CheckForSurfaceResize_def Let_def tracked_UpdateBackbufferSize)
     (simp add: tracked_def emit_def)

lemma tracked_BindBackbuffer: "tracked (BindBackbuffer E s) = tracked s"
  by (simp add: BindBackbuffer_def tracked_emit tracked_CheckForSurfaceResize
      tracked_CheckForSurfaceChange)

lemma tracked_UpdateDrawRectangle: "tracked (UpdateDrawRectangle E s) = tracked s"
  by (simp add: UpdateDrawRectangle_def Let_def tracked_def split: prod.splits)

lemma tracked_PresentBackbuffer: "tracked (PresentBackbuffer s) = tracked s"
  by (simp add: PresentBackbuffer_def tracked_emit)

lemma tracked_SetWindowSize: "tracked (SetWindowSize E w h s) = tracked s"
  by (simp add: SetWindowSize_def Let_def tracked_def emit_def split: prod.splits)

lemma tracked_RenderFrameDump: "tracked (RenderFrameDump K E s) = tracked s"
  by (simp add: RenderFrameDump_def Let_def tracked_def emit_def split: prod.splits option.splits)

lemma tracked_QueueFrameDumpReadback: "tracked (QueueFrameDumpReadback E s) = tracked s"
  by (simp add: QueueFrameDumpReadback_def Let_def tracked_def emit_def)

lemma tracked_DumpCurrentFrame: "tracked (DumpCurrentFrame K E s) = tracked s"
  by (simp add: DumpCurrentFrame_def tracked_QueueFrameDumpReadback tracked_RenderFrameDump)

lemma tracked_CalculateTargetSize: "tracked (snd (CalculateTargetSize K s)) = tracked s"
  by (simp add: CalculateTargetSize_def CalculateTargetScale_def Let_def tracked_def emit_def)

lemma tracked_CheckForConfigChanges: "tracked (CheckForConfigChanges K c s) = tracked s"
proof -
  let ?s2 = "emit [EvTextureCacheOnConfigChanged] (s\<lparr>g_ActiveConfig := c\<rparr>)"
  obtain tc s3 where cts: "CalculateTargetSize K ?s2 = (tc, s3)"
    by (cases "CalculateTargetSize K ?s2")
  have "tracked s3 = tracked ?s2"
    using tracked_CalculateTargetSize [of K ?s2] cts by simp
  also have "\<dots> = tracked s"
    by (simp add: tracked_def emit_def)
  finally have t3: "tracked s3 = tracked s" .
  show ?thesis
    unfolding CheckForConfigChanges_def Let_def cts prod.case
    by (simp add: tracked_emit t3)
qed

lemma tracked_Swap_present:
  "tracked (Swap_present K E e fbWidth fbStride ticks s) = (m_aspect_wide s, entry_id e)"
proof -
  have upd: "tracked (s'\<lparr>frameCount := n\<rparr>) = tracked s'"
    "tracked (s'\<lparr>iSaveTargetId := i\<rparr>) = tracked s'"
    "tracked (s'\<lparr>m_last_xfb_region := r\<rparr>) = tracked s'" for s' n i r
    by (simp_all add: tracked_def)
  show ?thesis
    unfolding Swap_present_def Let_def
    by (simp add: tracked_emit tracked_CheckForConfigChanges upd tracked_DumpCurrentFrame
        tracked_SetWindowSize tracked_PresentBackbuffer tracked_UpdateDrawRectangle
        tracked_BindBackbuffer)
       (simp add: tracked_def)
qed

lemma tracked_wfd: "without_frame_dump s = without_frame_dump s' \<Longrightarrow> tracked s = tracked s'"
proof -
  assume a: "without_frame_dump s = without_frame_dump s'"
  have "tracked s = tracked (without_frame_dump s)" for s
    by (simp add: tracked_def without_frame_dump_def)
  then show ?thesis using a by metis
qed

lemma tracked_Swap_refresh_rate: "tracked (Swap_refresh_rate E s) = tracked s"
  by (simp add: Swap_refresh_rate_def ChangeFullscreenState_def ChangeFullscreenState_base_def
      Let_def tracked_def emit_def)

lemma tracked_Swap_prologue: "tracked (Swap_prologue E s) = tracked (Swap_aspect E s)"
  unfolding Swap_prologue_def
  by (simp add: tracked_Swap_refresh_rate tracked_wfd [OF FlushFrameDump_wfd])

lemma m_aspect_wide_Swap:
  "m_aspect_wide (Swap K E xfbAddr fbWidth fbStride fbHeight ticks s) = m_aspect_wide (Swap_aspect E s)"
proof -
  have upd: "tracked (s'\<lparr>m_last_xfb_width := a, m_last_xfb_height := b\<rparr>) = tracked s'" for s' a b
    by (simp add: tracked_def)
  have "fst (tracked (Swap K E xfbAddr fbWidth fbStride fbHeight ticks s))
          = fst (tracked (Swap_prologue E s))"
    unfolding Swap_def Let_def Swap_prologue_def [symmetric]
    by (simp add: upd tracked_emit tracked_Swap_present split: option.splits)
       (simp add: tracked_def emit_def)
  then show ?thesis
    by (simp add: tracked_Swap_prologue) (simp add: tracked_def)
qed

section \<open>Properties of Swap\<close>

lemma round_to_53_small: "n < 2 ^ 53 \<Longrightarrow> round_to_53 n = n"
  by (simp add: round_to_53_def)

lemma exceeds_0_75_exact:
  assumes "unat a + unat b < 2 ^ 51"
  shows "exceeds_0_75 a (a + b) \<longleftrightarrow> 3 * (unat a + unat b) < 4 * unat a"
    and "exceeds_0_75 b (a + b) \<longleftrightarrow> 3 * (unat a + unat b) < 4 * unat b"
proof -
  have "unat a + unat b < 2 ^ LENGTH(64)" using assms by simp
  then have sum: "unat (a + b) = unat a + unat b"
    by (simp only: unat_add_lem)
  have ra: "round_to_53 (unat a) = unat a" and rb: "round_to_53 (unat b) = unat b"
    and rs: "round_to_53 (unat a + unat b) = unat a + unat b"
    and r3: "round_to_53 (3 * (unat a + unat b)) = 3 * (unat a + unat b)"
    using assms by (simp_all add: round_to_53_small)
  show "exceeds_0_75 a (a + b) \<longleftrightarrow> 3 * (unat a + unat b) < 4 * unat a"
    by (simp only: exceeds_0_75_def size_t_to_double_def sum ra rs r3)
  show "exceeds_0_75 b (a + b) \<longleftrightarrow> 3 * (unat a + unat b) < 4 * unat b"
    by (simp only: exceeds_0_75_def size_t_to_double_def sum rb rs r3)
qed

lemma three_quarters_real:
  "(0.75 * (real x + real y) < real x) \<longleftrightarrow> 3 * (x + y) < 4 * x"
proof -
  have "(0.75 * (real x + real y) < real x) \<longleftrightarrow> (real (3 * (x + y)) < real (4 * x))"
    by (simp add: field_simps)
  also have "\<dots> \<longleftrightarrow> 3 * (x + y) < 4 * x"
    by (simp only: of_nat_less_iff)
  finally show ?thesis .
qed

text \<open>
  C2. In the GameCube path of \<open>Swap\<close> (the suggested aspect mode is neither Analog nor
  AnalogWide, and the title is not a Wii title), whatever the arguments of the call
  and whichever branch it takes afterwards: a wide renderer becomes narrow exactly
  when the 4:3 flush count exceeds 0.75 of the total flush count, a narrow renderer
  becomes wide exactly when the anamorphic flush count exceeds 0.75 of the total, and
  otherwise \<open>m_aspect_wide\<close> keeps its value. The counts are those of one frame: their
  sum is below \<open>2 ^ 51\<close>, the range in which the \<open>size_t\<close> sum does not wrap and the
  \<open>double\<close> conversions and product of the source are exact.
\<close>

theorem C2_widescreen_hysteresis:
  assumes "suggested_aspect_mode (g_ActiveConfig s) \<noteq> Analog"
    and "suggested_aspect_mode (g_ActiveConfig s) \<noteq> AnalogWide"
    and "\<not> bWii E"
    and "unat (flush_count_4_3 E) + unat (flush_count_anamorphic E) < 2 ^ 51"
  shows "m_aspect_wide (Swap K E xfbAddr fbWidth fbStride fbHeight ticks s) =
     (if m_aspect_wide s
      then \<not> (0.75 * (real (unat (flush_count_4_3 E)) + real (unat (flush_count_anamorphic E)))
               < real (unat (flush_count_4_3 E)))
      else 0.75 * (real (unat (flush_count_4_3 E)) + real (unat (flush_count_anamorphic E)))
             < real (unat (flush_count_anamorphic E)))"
proof -
  let ?a = "flush_count_4_3 E" and ?b = "flush_count_anamorphic E"
  have sw: "m_aspect_wide (Swap_aspect E s) =
      (if m_aspect_wide s then \<not> exceeds_0_75 ?a (?a + ?b) else exceeds_0_75 ?b (?a + ?b))"
    using assms(1-3) by (simp add: Swap_aspect_def Let_def emit_def)
  have q: "(0.75 * (real (unat ?a) + real (unat ?b)) < real (unat ?b))
            \<longleftrightarrow> 3 * (unat ?a + unat ?b) < 4 * unat ?b"
    using three_quarters_real [of "unat ?b" "unat ?a"] by (simp add: add.commute)
  show ?thesis
    unfolding m_aspect_wide_Swap sw
    by (simp only: exceeds_0_75_exact [OF assms(4)] three_quarters_real q)
qed

theorem C2_witness:
  "m_aspect_wide (Swap K0 E0 0 0 0 0 0 s0)
   \<and> \<not> m_aspect_wide (Swap K0 (E0\<lparr>flush_count_4_3 := 3, flush_count_anamorphic := 1\<rparr>) 0 0 0 0 0 s0)
   \<and> \<not> m_aspect_wide (Swap K0 (E0\<lparr>flush_count_4_3 := 4, flush_count_anamorphic := 1\<rparr>) 0 0 0 0 0
          (s0\<lparr>m_aspect_wide := True\<rparr>))
   \<and> m_aspect_wide (Swap K0 (E0\<lparr>flush_count_4_3 := 3, flush_count_anamorphic := 1\<rparr>) 0 0 0 0 0
          (s0\<lparr>m_aspect_wide := True\<rparr>))"
  using C2_widescreen_hysteresis [of s0 E0 K0 0 0 0 0 0]
    C2_widescreen_hysteresis [of s0 "E0\<lparr>flush_count_4_3 := 3, flush_count_anamorphic := 1\<rparr>" K0 0 0 0 0 0]
    C2_widescreen_hysteresis [of "s0\<lparr>m_aspect_wide := True\<rparr>"
       "E0\<lparr>flush_count_4_3 := 4, flush_count_anamorphic := 1\<rparr>" K0 0 0 0 0 0]
    C2_widescreen_hysteresis [of "s0\<lparr>m_aspect_wide := True\<rparr>"
       "E0\<lparr>flush_count_4_3 := 3, flush_count_anamorphic := 1\<rparr>" K0 0 0 0 0 0]
  by (simp add: s0_def cfg0_def E0_def)

lemma not_in_prologue:
  assumes "list_all swap_prologue_event pre" and "\<not> swap_prologue_event e"
  shows "e \<notin> set pre"
  using assms by (auto simp add: list_all_iff)

text \<open>
  C10 (amended). A call of \<open>Swap\<close> in which \<open>xfbAddr\<close>, \<open>fbWidth\<close>, \<open>fbStride\<close> or
  \<open>fbHeight\<close> is zero is the prologue of every call followed by the backend \<open>Flush\<close>,
  and nothing else. The prologue is the update of \<open>m_aspect_wide\<close>, \<open>FlushFrameDump\<close>
  (which hands a frame queued by an earlier call to the frame-dump worker, starting
  the worker thread if needed, or shuts frame dumping down) and the refresh-rate check
  (which can change the fullscreen state). Apart from the prologue: the texture cache
  is not asked for the XFB, the backbuffer is not bound or cleared, nothing is
  presented, no performance sample is reported, the frame is not rendered to the
  frame-dump texture nor queued for readback, the texture cache is not cleaned up, and \<open>frameCount\<close>, \<open>m_last_xfb_id\<close>, \<open>m_last_xfb_width\<close> and
  \<open>m_last_xfb_height\<close> keep their values.
\<close>

theorem C10_swap_with_zero_argument_only_flushes:
  assumes "xfbAddr = 0 \<or> fbWidth = 0 \<or> fbStride = 0 \<or> fbHeight = 0"
  shows "(let s' = Swap K E xfbAddr fbWidth fbStride fbHeight ticks s
          in s' = emit [EvFlush] (Swap_prologue E s)
           \<and> (\<forall>a b c. EvGetXFBTexture a b c \<notin> set (new_events s s'))
           \<and> EvSetAndClearFramebuffer \<notin> set (new_events s s')
           \<and> EvPresentBackbuffer \<notin> set (new_events s s')
           \<and> EvReportPerformanceInfo \<notin> set (new_events s s')
           \<and> (\<forall>c. EvCreateTexture c \<notin> set (new_events s s'))
           \<and> EvScaleRectangleFromTexture \<notin> set (new_events s s')
           \<and> EvCopyRectangleFromTexture \<notin> set (new_events s s')
           \<and> (\<forall>c. EvCreateStagingTexture c \<notin> set (new_events s s'))
           \<and> EvCopyFromTexture \<notin> set (new_events s s')
           \<and> (\<forall>n. EvTextureCacheCleanup n \<notin> set (new_events s s'))
           \<and> frameCount s' = frameCount s
           \<and> m_last_xfb_id s' = m_last_xfb_id s
           \<and> m_last_xfb_width s' = m_last_xfb_width s
           \<and> m_last_xfb_height s' = m_last_xfb_height s)"
proof -
  have eq: "Swap K E xfbAddr fbWidth fbStride fbHeight ticks s = emit [EvFlush] (Swap_prologue E s)"
    using assms by (rule Swap_zero)
  obtain pre where pre: "new_events s (emit [EvFlush] (Swap_prologue E s)) = pre @ [EvFlush]"
      "list_all swap_prologue_event pre"
    using new_events_prologue_emit [of s "[EvFlush]" E] by blast
  have fields: "frameCount (emit [EvFlush] (Swap_prologue E s)) = frameCount s"
      "m_last_xfb_id (emit [EvFlush] (Swap_prologue E s)) = m_last_xfb_id s"
      "m_last_xfb_width (emit [EvFlush] (Swap_prologue E s)) = m_last_xfb_width s"
      "m_last_xfb_height (emit [EvFlush] (Swap_prologue E s)) = m_last_xfb_height s"
    using Swap_prologue_frameCount [of E s] Swap_prologue_m_last_xfb_id [of E s]
      Swap_prologue_m_last_xfb_width [of E s] Swap_prologue_m_last_xfb_height [of E s]
    by (simp_all add: emit_def)
  show ?thesis
    unfolding Let_def eq pre(1)
    using not_in_prologue [OF pre(2)] fields
    by simp
qed

theorem C10_witness:
  "EvPresentBackbuffer \<notin> set (new_events s0 (Swap K0 E0 0 640 640 480 0 s0))
   \<and> frameCount (Swap K0 E0 0 640 640 480 0 s0) = 0
   \<and> m_last_xfb_id (Swap K0 E0 0 640 640 480 0 s0) = - 1
   \<and> m_last_xfb_width (Swap K0 E0 0 640 640 480 0 s0) = 720"
proof -
  have f: "frameCount s0 = 0" "m_last_xfb_id s0 = - 1" "m_last_xfb_width s0 = 720"
    by (simp_all add: s0_def)
  from C10_swap_with_zero_argument_only_flushes [of 0 640 640 480 K0 E0 0 s0, unfolded Let_def]
  have "EvPresentBackbuffer \<notin> set (new_events s0 (Swap K0 E0 0 640 640 480 0 s0))"
    and "frameCount (Swap K0 E0 0 640 640 480 0 s0) = frameCount s0"
    and "m_last_xfb_id (Swap K0 E0 0 640 640 480 0 s0) = m_last_xfb_id s0"
    and "m_last_xfb_width (Swap K0 E0 0 640 640 480 0 s0) = m_last_xfb_width s0"
    by blast+
  then show ?thesis
    by (simp add: f)
qed

text \<open>
  C1 (amended). A call of \<open>Swap\<close> with non-zero arguments for which the texture cache
  returns an entry whose identifier equals \<open>m_last_xfb_id\<close> is the prologue of every
  call, the cache lookup, the backend \<open>Flush\<close> and the update of \<open>m_last_xfb_width\<close> and
  \<open>m_last_xfb_height\<close>, and nothing else. The prologue is the update of
  \<open>m_aspect_wide\<close>, \<open>FlushFrameDump\<close> (which hands a frame queued by an earlier call to
  the frame-dump worker, starting the worker thread if needed, or shuts frame dumping
  down) and the refresh-rate check (which can change the fullscreen state). Apart from
  the prologue: the backbuffer is not bound or cleared,
  nothing is presented, no performance sample is reported, \<open>DumpCurrentFrame\<close> does
  not run (the frame is not rendered to the frame-dump texture nor queued for
  readback), and \<open>frameCount\<close> and \<open>m_last_xfb_id\<close> keep their values. The statement
  holds in every state, hence after every sequence of earlier calls.
\<close>

theorem C1_swap_with_unchanged_entry_only_flushes:
  assumes "xfbAddr \<noteq> 0" and "fbWidth \<noteq> 0" and "fbStride \<noteq> 0" and "fbHeight \<noteq> 0"
    and "xfb_entry E = Some e" and "entry_id e = m_last_xfb_id s"
  shows "(let s' = Swap K E xfbAddr fbWidth fbStride fbHeight ticks s
          in s' = (emit [EvGetXFBTexture xfbAddr fbStride fbHeight, EvFlush] (Swap_prologue E s))
                    \<lparr>m_last_xfb_width :=
                       (if fbStride < 1 \<or> MAX_XFB_WIDTH K < fbStride then MAX_XFB_WIDTH K
                        else fbStride),
                     m_last_xfb_height :=
                       (if fbHeight < 1 \<or> MAX_XFB_HEIGHT K < fbHeight then MAX_XFB_HEIGHT K
                        else fbHeight)\<rparr>
           \<and> EvSetAndClearFramebuffer \<notin> set (new_events s s')
           \<and> EvPresentBackbuffer \<notin> set (new_events s s')
           \<and> EvReportPerformanceInfo \<notin> set (new_events s s')
           \<and> (\<forall>c. EvCreateTexture c \<notin> set (new_events s s'))
           \<and> EvScaleRectangleFromTexture \<notin> set (new_events s s')
           \<and> EvCopyRectangleFromTexture \<notin> set (new_events s s')
           \<and> (\<forall>c. EvCreateStagingTexture c \<notin> set (new_events s s'))
           \<and> EvCopyFromTexture \<notin> set (new_events s s')
           \<and> (\<forall>n. EvTextureCacheCleanup n \<notin> set (new_events s s'))
           \<and> frameCount s' = frameCount s
           \<and> m_last_xfb_id s' = m_last_xfb_id s)"
proof -
  let ?es = "[EvGetXFBTexture xfbAddr fbStride fbHeight, EvFlush]"
  let ?w = "if fbStride < 1 \<or> MAX_XFB_WIDTH K < fbStride then MAX_XFB_WIDTH K else fbStride"
  let ?h = "if fbHeight < 1 \<or> MAX_XFB_HEIGHT K < fbHeight then MAX_XFB_HEIGHT K else fbHeight"
  let ?s' = "(emit ?es (Swap_prologue E s))\<lparr>m_last_xfb_width := ?w, m_last_xfb_height := ?h\<rparr>"
  have eq: "Swap K E xfbAddr fbWidth fbStride fbHeight ticks s = ?s'"
    using assms by (rule Swap_dedup)
  obtain pre where pre: "new_events s (emit ?es (Swap_prologue E s)) = pre @ ?es"
      "list_all swap_prologue_event pre"
    using new_events_prologue_emit [of s ?es E] by blast
  have ne: "new_events s ?s' = pre @ ?es"
    using pre(1) by (simp add: new_events_def)
  have fields: "frameCount ?s' = frameCount s" "m_last_xfb_id ?s' = m_last_xfb_id s"
    using Swap_prologue_frameCount [of E s] Swap_prologue_m_last_xfb_id [of E s]
    by (simp_all add: emit_def)
  show ?thesis
    unfolding Let_def eq ne
    using not_in_prologue [OF pre(2)] fields
    by simp
qed

theorem C1_witness:
  "EvPresentBackbuffer \<notin> set (new_events (s0\<lparr>m_last_xfb_id := 7\<rparr>)
        (Swap K0 E0 4096 640 640 480 0 (s0\<lparr>m_last_xfb_id := 7\<rparr>)))
   \<and> frameCount (Swap K0 E0 4096 640 640 480 0 (s0\<lparr>m_last_xfb_id := 7\<rparr>)) = 0"
proof -
  have e: "xfb_entry E0 = Some \<lparr>entry_id = 7, native_width = 640, texture = 1,
                             texture_config = \<lparr>cfg_width = 640, cfg_height = 480\<rparr>\<rparr>"
    by (simp add: E0_def)
  have f: "frameCount (s0\<lparr>m_last_xfb_id := 7\<rparr>) = 0"
    by (simp add: s0_def)
  have i: "entry_id \<lparr>entry_id = 7, native_width = 640, texture = 1,
                             texture_config = \<lparr>cfg_width = 640, cfg_height = 480\<rparr>\<rparr>
            = m_last_xfb_id (s0\<lparr>m_last_xfb_id := 7\<rparr>)"
    by simp
  have n: "(4096 :: u32) \<noteq> 0" "(640 :: u32) \<noteq> 0" "(480 :: u32) \<noteq> 0"
    by simp_all
  from C1_swap_with_unchanged_entry_only_flushes [OF n(1) n(2) n(2) n(3) e i, of K0 0, unfolded Let_def]
  have "EvPresentBackbuffer \<notin> set (new_events (s0\<lparr>m_last_xfb_id := 7\<rparr>)
        (Swap K0 E0 4096 640 640 480 0 (s0\<lparr>m_last_xfb_id := 7\<rparr>)))"
    and "frameCount (Swap K0 E0 4096 640 640 480 0 (s0\<lparr>m_last_xfb_id := 7\<rparr>))
           = frameCount (s0\<lparr>m_last_xfb_id := 7\<rparr>)"
    by blast+
  then show ?thesis
    by (simp add: f)
qed

lemma worker_quiet_refl: "worker_quiet s s"
  by (simp add: worker_quiet_def)
















section \<open>Properties of the frame-dump worker\<close>






lemma DumpFrameData_establishes:
  "m_frame_dump_frame_running (DumpFrameData c s)"
  "m_frame_dump_thread_running (DumpFrameData c s)"
  "m_frame_dump_thread_joinable (DumpFrameData c s) =
     (m_frame_dump_thread_running s \<longrightarrow> m_frame_dump_thread_joinable s)"
  "new_events s (DumpFrameData c s) =
     (if m_frame_dump_thread_running s then [EvFrameDumpStartSet]
      else (if m_frame_dump_thread_joinable s then [EvThreadJoin] else [])
             @ [EvThreadStart, EvFrameDumpStartSet])"
  by (simp_all add: DumpFrameData_def Let_def emit_def new_events_def)

lemma ShutdownFrameDumping_outstanding:
  assumes "m_frame_dump_frame_running s" and "m_frame_dump_thread_running s"
    and "m_frame_dump_thread_joinable s"
  shows "new_events s (ShutdownFrameDumping E s) = shutdown_events E s"
    and "\<not> m_frame_dump_frame_running (ShutdownFrameDumping E s)"
    and "\<not> m_frame_dump_thread_running (ShutdownFrameDumping E s)"
    and "\<not> m_frame_dump_thread_joinable (ShutdownFrameDumping E s)"
  using assms
  by (simp_all add: ShutdownFrameDumping_eq FlushFrameDump_eq FlushFrameDump_encode_def
      ShutdownFrameDumping_stop_def FinishFrameData_def DumpFrameData_def IsFrameDumping_def
      shutdown_events_def Let_def emit_def new_events_def)

lemma Shutdown_events:
  "\<exists>rest. new_events s (Shutdown E s) = new_events s (ShutdownFrameDumping E s) @ rest"
proof -
  obtain es where es: "trace (ShutdownFrameDumping E s) = trace s @ es"
    using ShutdownFrameDumping_ext [of s E] by (auto simp add: extends_by_def)
  have "\<exists>rest. trace (Shutdown E s) = trace (ShutdownFrameDumping E s) @ rest"
    by (simp add: Shutdown_def Let_def ChangeFullscreenState_def ChangeFullscreenState_base_def
        emit_def)
  then obtain rest where "trace (Shutdown E s) = trace s @ es @ rest"
    using es by auto
  then show ?thesis
    using es by (simp add: new_events_def)
qed

text \<open>
  C6. \<open>DumpFrameData\<close> leaves a job outstanding (\<open>m_frame_dump_frame_running\<close>) with the
  worker running and joinable, and starts the worker exactly when it was not running.
  From every state with an outstanding job and a running, joinable worker,
  \<open>ShutdownFrameDumping\<close> makes exactly the calls listed: it first waits for the done
  event of the outstanding job (\<open>m_frame_dump_done.Wait()\<close> returns only when the
  worker has set the event), and its last call before it returns is the join of the
  worker thread; when a readback was still queued it hands that frame to the worker
  in between and waits for its done event too. Afterwards no job is outstanding and
  the worker is neither running nor joinable. \<open>Shutdown\<close> starts with these calls.
\<close>

theorem C6_shutdown_waits_for_outstanding_dump_job:
  "((m_frame_dump_thread_running sa \<longrightarrow> m_frame_dump_thread_joinable sa)
     \<longrightarrow> m_frame_dump_frame_running (DumpFrameData c sa)
       \<and> m_frame_dump_thread_running (DumpFrameData c sa)
       \<and> m_frame_dump_thread_joinable (DumpFrameData c sa)
       \<and> (EvThreadStart \<in> set (new_events sa (DumpFrameData c sa))
            \<longleftrightarrow> \<not> m_frame_dump_thread_running sa))
   \<and> (m_frame_dump_frame_running s \<and> m_frame_dump_thread_running s
       \<and> m_frame_dump_thread_joinable s
     \<longrightarrow> new_events s (ShutdownFrameDumping E s) =
           (if m_last_frame_exported s
            then [EvFrameDumpDoneWait, EvStagingFlush, EvStagingMap (staging_map_ok E)]
                   @ (if staging_map_ok E
                      then [EvFrameDumpStartSet, EvStagingUnmap, EvFrameDumpDoneWait]
                      else [])
                   @ [EvFrameDumpStartSet, EvThreadJoin]
            else [EvFrameDumpDoneWait, EvFrameDumpStartSet, EvThreadJoin])
       \<and> \<not> m_frame_dump_frame_running (ShutdownFrameDumping E s)
       \<and> \<not> m_frame_dump_thread_running (ShutdownFrameDumping E s)
       \<and> \<not> m_frame_dump_thread_joinable (ShutdownFrameDumping E s)
       \<and> (\<exists>rest. new_events s (Shutdown E s) = new_events s (ShutdownFrameDumping E s) @ rest))"
proof (intro conjI impI)
  assume "m_frame_dump_thread_running sa \<longrightarrow> m_frame_dump_thread_joinable sa"
  then show "m_frame_dump_thread_joinable (DumpFrameData c sa)"
    by (simp add: DumpFrameData_establishes)
next
  show "EvThreadStart \<in> set (new_events sa (DumpFrameData c sa))
          \<longleftrightarrow> \<not> m_frame_dump_thread_running sa"
    by (simp add: DumpFrameData_establishes)
next
  assume a: "m_frame_dump_frame_running s \<and> m_frame_dump_thread_running s
       \<and> m_frame_dump_thread_joinable s"
  then show "new_events s (ShutdownFrameDumping E s) =
           (if m_last_frame_exported s
            then [EvFrameDumpDoneWait, EvStagingFlush, EvStagingMap (staging_map_ok E)]
                   @ (if staging_map_ok E
                      then [EvFrameDumpStartSet, EvStagingUnmap, EvFrameDumpDoneWait]
                      else [])
                   @ [EvFrameDumpStartSet, EvThreadJoin]
            else [EvFrameDumpDoneWait, EvFrameDumpStartSet, EvThreadJoin])"
    using ShutdownFrameDumping_outstanding(1) [of s E] by (simp add: shutdown_events_def)
  from a show "\<not> m_frame_dump_frame_running (ShutdownFrameDumping E s)"
    by (simp add: ShutdownFrameDumping_outstanding)
  from a show "\<not> m_frame_dump_thread_running (ShutdownFrameDumping E s)"
    by (simp add: ShutdownFrameDumping_outstanding)
  from a show "\<not> m_frame_dump_thread_joinable (ShutdownFrameDumping E s)"
    by (simp add: ShutdownFrameDumping_outstanding)
qed (simp_all add: DumpFrameData_establishes Shutdown_events)

theorem C6_witness:
  "new_events (DumpFrameData (staging_mapped E0) s0)
      (ShutdownFrameDumping E0 (DumpFrameData (staging_mapped E0) s0))
     = [EvFrameDumpDoneWait, EvFrameDumpStartSet, EvThreadJoin]
   \<and> EvThreadStart \<in> set (new_events s0 (DumpFrameData (staging_mapped E0) s0))
   \<and> \<not> m_frame_dump_thread_running (ShutdownFrameDumping E0 (DumpFrameData (staging_mapped E0) s0))"
proof -
  let ?c = "staging_mapped E0"
  let ?s = "DumpFrameData ?c s0"
  have inv: "m_frame_dump_thread_running s0 \<longrightarrow> m_frame_dump_thread_joinable s0"
    and nr: "\<not> m_frame_dump_thread_running s0"
    by (simp_all add: s0_def)
  have ex: "\<not> m_last_frame_exported ?s"
    by (simp add: DumpFrameData_def Let_def emit_def s0_def)
  from C6_shutdown_waits_for_outstanding_dump_job [of s0 ?c ?s E0] inv
  have flags: "m_frame_dump_frame_running ?s \<and> m_frame_dump_thread_running ?s
       \<and> m_frame_dump_thread_joinable ?s"
    and start: "EvThreadStart \<in> set (new_events s0 ?s) \<longleftrightarrow> \<not> m_frame_dump_thread_running s0"
    by blast+
  from C6_shutdown_waits_for_outstanding_dump_job [of s0 ?c ?s E0] flags ex
  have "new_events ?s (ShutdownFrameDumping E0 ?s)
          = [EvFrameDumpDoneWait, EvFrameDumpStartSet, EvThreadJoin]"
    and "\<not> m_frame_dump_thread_running (ShutdownFrameDumping E0 ?s)"
    by simp_all
  then show ?thesis
    using start nr by simp
qed

section \<open>Properties of surface notifications\<close>

lemma emit_emit: "emit es2 (emit es1 s) = emit (es1 @ es2) s"
  by (simp add: emit_def)

lemma UpdateBackbufferSize_keeps:
  "m_surface_changed (UpdateBackbufferSize s) = m_surface_changed s"
  "m_surface_resized (UpdateBackbufferSize s) = m_surface_resized s"
  "m_new_surface_handle (UpdateBackbufferSize s) = m_new_surface_handle s"
  "m_last_fullscreen_state (UpdateBackbufferSize s) = m_last_fullscreen_state s"
  "d3d_swapchain (UpdateBackbufferSize s) = d3d_swapchain s"
  "trace (UpdateBackbufferSize s) = trace s"
  by (simp_all add: UpdateBackbufferSize_def split: option.splits prod.splits)

lemma CheckForSurfaceChange_props:
  "\<not> m_surface_changed (CheckForSurfaceChange E s)"
  "m_surface_resized (CheckForSurfaceChange E s) = m_surface_resized s"
  "m_last_fullscreen_state (CheckForSurfaceChange E s) = m_last_fullscreen_state s"
  "d3d_swapchain (CheckForSurfaceChange E s) =
     (if m_surface_changed s then d3d_Reset E (m_new_surface_handle s) else d3d_swapchain s)"
  "trace (CheckForSurfaceChange E s) =
     trace s @ (if m_surface_changed s then [EvReset3DVision, EvD3DReset (m_new_surface_handle s)]
                else [])"
  by (simp_all add: CheckForSurfaceChange_def Let_def UpdateBackbufferSize_keeps emit_def)

lemma CheckForSurfaceResize_props:
  "m_surface_changed (CheckForSurfaceResize E s) = m_surface_changed s"
  "\<not> m_surface_resized (CheckForSurfaceResize E s)"
  "m_last_fullscreen_state (CheckForSurfaceResize E s) = d3d_GetFullscreenState E"
  "trace (CheckForSurfaceResize E s) =
     trace s @ (if m_surface_resized s \<or> d3d_GetFullscreenState E \<noteq> m_last_fullscreen_state s
                then EvReset3DVision # (if d3d_swapchain s \<noteq> None then [EvResizeSwapChain] else [])
                else [])"
  by (auto simp add: CheckForSurfaceResize_def Let_def UpdateBackbufferSize_keeps emit_def)

lemma CheckForSurfaceResize_idle:
  "\<not> m_surface_resized s \<Longrightarrow> d3d_GetFullscreenState E = m_last_fullscreen_state s \<Longrightarrow>
   CheckForSurfaceResize E s = s"
  by (simp add: CheckForSurfaceResize_def Let_def)

lemma CheckForSurfaceChange_idle:
  "\<not> m_surface_changed s \<Longrightarrow> CheckForSurfaceChange E s = s"
  by (simp add: CheckForSurfaceChange_def)

lemma BindBackbuffer_flags:
  "\<not> m_surface_changed (BindBackbuffer E s)"
  "\<not> m_surface_resized (BindBackbuffer E s)"
  by (simp_all add: BindBackbuffer_def emit_def CheckForSurfaceResize_props
      CheckForSurfaceChange_props)

lemma BindBackbuffer_events:
  "new_events s (BindBackbuffer E s) =
     (if m_surface_changed s then [EvReset3DVision, EvD3DReset (m_new_surface_handle s)] else [])
     @ (if m_surface_resized s \<or> d3d_GetFullscreenState E \<noteq> m_last_fullscreen_state s
        then EvReset3DVision #
             (if (if m_surface_changed s then d3d_Reset E (m_new_surface_handle s)
                  else d3d_swapchain s) \<noteq> None
              then [EvResizeSwapChain] else [])
        else [])
     @ [EvSetAndClearFramebuffer]"
  by (simp add: BindBackbuffer_def emit_def new_events_def CheckForSurfaceResize_props
      CheckForSurfaceChange_props)

lemma BindBackbuffer_fullscreen:
  "m_last_fullscreen_state (BindBackbuffer E s) = d3d_GetFullscreenState E"
  by (simp add: BindBackbuffer_def emit_def CheckForSurfaceResize_props)

lemma BindBackbuffer_idle:
  "\<not> m_surface_changed s \<Longrightarrow> \<not> m_surface_resized s \<Longrightarrow>
   d3d_GetFullscreenState E = m_last_fullscreen_state s \<Longrightarrow>
   BindBackbuffer E s = emit [EvSetAndClearFramebuffer] s"
  by (simp add: BindBackbuffer_def CheckForSurfaceChange_idle CheckForSurfaceResize_idle)

lemma BindBackbuffer_twice:
  "BindBackbuffer E (BindBackbuffer E s) = emit [EvSetAndClearFramebuffer] (BindBackbuffer E s)"
  by (rule BindBackbuffer_idle) (simp_all add: BindBackbuffer_flags BindBackbuffer_fullscreen)

lemma BindBackbuffer_uninterrupted:
  "interleave E [RenderThread, RenderThread, RenderThread, RenderThread] (AtTestChanged, s)
     = (AtBound, BindBackbuffer E s)"
  by (simp add: BindBackbuffer_def CheckForSurfaceChange_def Let_def)

text \<open>
  C8. The code does not do what the claim says when a second \<open>ChangeSurface\<close> arrives
  while \<open>BindBackbuffer\<close> is applying the first. After \<open>ChangeSurface(5)\<close>, the render
  thread tests and clears the flag and calls \<open>D3D::Reset(5)\<close>; the other thread calls
  \<open>ChangeSurface(6)\<close>; the render thread then overwrites the pending handle with
  \<open>nullptr\<close> and finishes the bind. The flag is still set and the handle 6 is gone: the
  next \<open>BindBackbuffer\<close> calls \<open>D3D::Reset(nullptr)\<close> and leaves the renderer without a
  swap chain, and handle 6 is never passed to \<open>D3D::Reset\<close>.
\<close>

theorem C8_concurrent_ChangeSurface_loses_handle:
  "interleave E0 [RenderThread, RenderThread, CallChangeSurface 6, RenderThread, RenderThread]
      (AtTestChanged, ChangeSurface 5 s0)
     = (AtBound,
        s0\<lparr>m_surface_changed := True, m_new_surface_handle := 0,
           d3d_swapchain := Some (800, 600), m_backbuffer_width := 800, m_backbuffer_height := 600,
           trace := [EvSwapMutexLock, EvSwapMutexUnlock, EvReset3DVision, EvD3DReset 5,
                     EvSwapMutexLock, EvSwapMutexUnlock, EvSetAndClearFramebuffer]\<rparr>)
   \<and> new_events s0
        (BindBackbuffer E0
          (snd (interleave E0
             [RenderThread, RenderThread, CallChangeSurface 6, RenderThread, RenderThread]
             (AtTestChanged, ChangeSurface 5 s0))))
      = [EvSwapMutexLock, EvSwapMutexUnlock, EvReset3DVision, EvD3DReset 5,
         EvSwapMutexLock, EvSwapMutexUnlock, EvSetAndClearFramebuffer,
         EvReset3DVision, EvD3DReset 0, EvSetAndClearFramebuffer]
   \<and> d3d_swapchain
        (BindBackbuffer E0
          (snd (interleave E0
             [RenderThread, RenderThread, CallChangeSurface 6, RenderThread, RenderThread]
             (AtTestChanged, ChangeSurface 5 s0))))
      = None"
proof -
  have 1: "interleave E0 [RenderThread, RenderThread, CallChangeSurface 6, RenderThread, RenderThread]
      (AtTestChanged, ChangeSurface 5 s0)
     = (AtBound,
        s0\<lparr>m_surface_changed := True, m_new_surface_handle := 0,
           d3d_swapchain := Some (800, 600), m_backbuffer_width := 800, m_backbuffer_height := 600,
           trace := [EvSwapMutexLock, EvSwapMutexUnlock, EvReset3DVision, EvD3DReset 5,
                     EvSwapMutexLock, EvSwapMutexUnlock, EvSetAndClearFramebuffer]\<rparr>)"
    by (simp add: ChangeSurface_def emit_def UpdateBackbufferSize_def CheckForSurfaceResize_def
        Let_def s0_def E0_def)
  show ?thesis
    unfolding 1
    by (simp add: BindBackbuffer_def CheckForSurfaceChange_def CheckForSurfaceResize_def
        UpdateBackbufferSize_def emit_def new_events_def Let_def s0_def E0_def)
qed

section \<open>Swap calls after a frame was queued for the dump\<close>

lemma dump_flags_emit: "dump_flags (emit es s) = dump_flags s"
  by (simp add: dump_flags_def emit_def)

lemma dump_flags_UpdateBackbufferSize: "dump_flags (UpdateBackbufferSize s) = dump_flags s"
  by (simp add: dump_flags_def UpdateBackbufferSize_def split: option.splits)

lemma dump_flags_CheckForSurfaceChange: "dump_flags (CheckForSurfaceChange E s) = dump_flags s"
  by (simp add: CheckForSurfaceChange_def Let_def dump_flags_UpdateBackbufferSize)
     (simp add: dump_flags_def emit_def)

lemma dump_flags_CheckForSurfaceResize: "dump_flags (CheckForSurfaceResize E s) = dump_flags s"
  by (simp add: CheckForSurfaceResize_def Let_def dump_flags_UpdateBackbufferSize)
     (simp add: dump_flags_def emit_def)

lemma dump_flags_BindBackbuffer: "dump_flags (BindBackbuffer E s) = dump_flags s"
  by (simp add: BindBackbuffer_def dump_flags_emit dump_flags_CheckForSurfaceResize
      dump_flags_CheckForSurfaceChange)

lemma dump_flags_UpdateDrawRectangle: "dump_flags (UpdateDrawRectangle E s) = dump_flags s"
  by (simp add: UpdateDrawRectangle_def Let_def dump_flags_def split: prod.splits)

lemma dump_flags_PresentBackbuffer: "dump_flags (PresentBackbuffer s) = dump_flags s"
  by (simp add: PresentBackbuffer_def dump_flags_emit)

lemma dump_flags_SetWindowSize: "dump_flags (SetWindowSize E w h s) = dump_flags s"
  by (simp add: SetWindowSize_def Let_def dump_flags_def emit_def split: prod.splits)

lemma IsFrameDumping_dump_flags:
  "IsFrameDumping s = (fst (dump_flags s) \<or> fst (snd (dump_flags s)))"
  by (simp add: IsFrameDumping_def dump_flags_def)

lemma dump_flags_RenderFrameDump: "dump_flags (RenderFrameDump K E s) = dump_flags s"
  by (simp add: RenderFrameDump_def Let_def dump_flags_def emit_def split: prod.splits option.splits)

lemma dump_flags_QueueFrameDumpReadback: "dump_flags (QueueFrameDumpReadback E s) = dump_flags s"
  by (simp add: QueueFrameDumpReadback_def Let_def dump_flags_def emit_def)

lemma dump_flags_DumpCurrentFrame: "dump_flags (DumpCurrentFrame K E s) = dump_flags s"
  by (simp add: DumpCurrentFrame_def dump_flags_QueueFrameDumpReadback dump_flags_RenderFrameDump)

lemma dump_flags_CalculateTargetSize: "dump_flags (snd (CalculateTargetSize K s)) = dump_flags s"
  by (simp add: CalculateTargetSize_def CalculateTargetScale_def Let_def dump_flags_def emit_def)

lemma queued_frame_CalculateTargetSize: "queued_frame (snd (CalculateTargetSize K s)) = queued_frame s"
  by (simp add: CalculateTargetSize_def CalculateTargetScale_def Let_def queued_frame_def emit_def)

lemma g_ActiveConfig_CalculateTargetSize:
  "g_ActiveConfig (snd (CalculateTargetSize K s)) = g_ActiveConfig s"
  by (simp add: CalculateTargetSize_def CalculateTargetScale_def Let_def emit_def)

lemma CheckForConfigChanges_views:
  "dump_flags (CheckForConfigChanges K c s) = dump_flags s
   \<and> queued_frame (CheckForConfigChanges K c s) = queued_frame s
   \<and> g_ActiveConfig (CheckForConfigChanges K c s) = c"
proof -
  let ?s2 = "emit [EvTextureCacheOnConfigChanged] (s\<lparr>g_ActiveConfig := c\<rparr>)"
  obtain tc s3 where cts: "CalculateTargetSize K ?s2 = (tc, s3)"
    by (cases "CalculateTargetSize K ?s2")
  have d: "dump_flags s3 = dump_flags s"
    using dump_flags_CalculateTargetSize [of K ?s2] cts by (simp add: dump_flags_def emit_def)
  have q: "queued_frame s3 = queued_frame s"
    using queued_frame_CalculateTargetSize [of K ?s2] cts by (simp add: queued_frame_def emit_def)
  have g: "g_ActiveConfig s3 = c"
    using g_ActiveConfig_CalculateTargetSize [of K ?s2] cts by (simp add: emit_def)
  have e: "dump_flags (emit es s') = dump_flags s'" "queued_frame (emit es s') = queued_frame s'"
    "g_ActiveConfig (emit es s') = g_ActiveConfig s'" for es s'
    by (simp_all add: dump_flags_def queued_frame_def emit_def)
  show ?thesis
    unfolding CheckForConfigChanges_def Let_def cts prod.case
    by (simp add: e d q g)
qed

lemma QueueFrameDumpReadback_queued:
  "queued_frame (QueueFrameDumpReadback E s) = (True, FetchState E (m_last_xfb_ticks s), m_last_xfb_id s)"
  by (simp add: QueueFrameDumpReadback_def Let_def queued_frame_def emit_def)

lemma RenderFrameDump_ticks:
  "m_last_xfb_ticks (RenderFrameDump K E s) = m_last_xfb_ticks s
   \<and> m_last_xfb_id (RenderFrameDump K E s) = m_last_xfb_id s"
  by (simp add: RenderFrameDump_def Let_def emit_def split: prod.splits option.splits)

lemma ticks_views:
  "m_last_xfb_ticks (emit es s) = m_last_xfb_ticks s"
  "m_last_xfb_id (emit es s) = m_last_xfb_id s"
  "m_last_xfb_ticks (BindBackbuffer E s) = m_last_xfb_ticks s"
  "m_last_xfb_id (BindBackbuffer E s) = m_last_xfb_id s"
  "m_last_xfb_ticks (UpdateDrawRectangle E s) = m_last_xfb_ticks s"
  "m_last_xfb_id (UpdateDrawRectangle E s) = m_last_xfb_id s"
  "m_last_xfb_ticks (PresentBackbuffer s) = m_last_xfb_ticks s"
  "m_last_xfb_id (PresentBackbuffer s) = m_last_xfb_id s"
  "m_last_xfb_ticks (SetWindowSize E w h s) = m_last_xfb_ticks s"
  "m_last_xfb_id (SetWindowSize E w h s) = m_last_xfb_id s"
  by (simp_all add: emit_def BindBackbuffer_def CheckForSurfaceChange_def CheckForSurfaceResize_def
      UpdateBackbufferSize_def UpdateDrawRectangle_def PresentBackbuffer_def SetWindowSize_def
      Let_def split: option.splits prod.splits)

lemma Swap_present_when_dumping:
  assumes "IsFrameDumping s"
  shows "dump_flags (Swap_present K E e fbWidth fbStride ticks s) = dump_flags s"
    and "queued_frame (Swap_present K E e fbWidth fbStride ticks s) = (True, FetchState E ticks, entry_id e)"
    and "g_ActiveConfig (Swap_present K E e fbWidth fbStride ticks s) = UpdateActiveConfig E"
proof -
  have upd: "dump_flags (s'\<lparr>frameCount := n\<rparr>) = dump_flags s'"
    "dump_flags (s'\<lparr>iSaveTargetId := i\<rparr>) = dump_flags s'"
    "dump_flags (s'\<lparr>m_last_xfb_region := r\<rparr>) = dump_flags s'"
    "dump_flags (s'\<lparr>m_last_xfb_texture := x, m_last_xfb_id := y, m_last_xfb_ticks := z\<rparr>) = dump_flags s'"
    "queued_frame (s'\<lparr>frameCount := n\<rparr>) = queued_frame s'"
    "queued_frame (s'\<lparr>iSaveTargetId := i\<rparr>) = queued_frame s'"
    "g_ActiveConfig (s'\<lparr>iSaveTargetId := i\<rparr>) = g_ActiveConfig s'"
    "g_ActiveConfig (emit es s') = g_ActiveConfig s'"
    "queued_frame (emit es s') = queued_frame s'" for s' n i r x y z es
    by (simp_all add: dump_flags_def queued_frame_def emit_def)
  note df = dump_flags_emit dump_flags_SetWindowSize dump_flags_PresentBackbuffer
    dump_flags_UpdateDrawRectangle dump_flags_BindBackbuffer dump_flags_DumpCurrentFrame
  have dumping: "IsFrameDumping s' \<longleftrightarrow> IsFrameDumping s" if "dump_flags s' = dump_flags s" for s'
    using that by (simp add: IsFrameDumping_dump_flags)
  show "dump_flags (Swap_present K E e fbWidth fbStride ticks s) = dump_flags s"
    unfolding Swap_present_def Let_def
    by (simp add: CheckForConfigChanges_views upd df)
  show "queued_frame (Swap_present K E e fbWidth fbStride ticks s) = (True, FetchState E ticks, entry_id e)"
    unfolding Swap_present_def Let_def
    by (simp add: CheckForConfigChanges_views upd df dumping assms DumpCurrentFrame_def
        QueueFrameDumpReadback_queued RenderFrameDump_ticks ticks_views)
  show "g_ActiveConfig (Swap_present K E e fbWidth fbStride ticks s) = UpdateActiveConfig E"
    unfolding Swap_present_def Let_def
    by (simp add: CheckForConfigChanges_views upd)
qed

lemma Swap_new_frame:
  assumes "xfbAddr \<noteq> 0" and "fbWidth \<noteq> 0" and "fbStride \<noteq> 0" and "fbHeight \<noteq> 0"
    and "xfb_entry E = Some e" and "entry_id e \<noteq> m_last_xfb_id s"
  shows "Swap K E xfbAddr fbWidth fbStride fbHeight ticks s =
     (Swap_present K E e fbWidth fbStride ticks
        (emit [EvGetXFBTexture xfbAddr fbStride fbHeight] (Swap_prologue E s)))
       \<lparr>m_last_xfb_width :=
          (if fbStride < 1 \<or> MAX_XFB_WIDTH K < fbStride then MAX_XFB_WIDTH K else fbStride),
        m_last_xfb_height :=
          (if fbHeight < 1 \<or> MAX_XFB_HEIGHT K < fbHeight then MAX_XFB_HEIGHT K else fbHeight)\<rparr>"
  using assms Swap_prologue_m_last_xfb_id [of E s]
  by (simp add: Swap_def Swap_prologue_def Let_def emit_def)

lemma Swap_prologue_idle:
  assumes "\<not> m_last_frame_exported s"
    and "m_last_refresh_rate s = GetTargetFractionalRefreshRate E"
  shows "dump_flags (Swap_prologue E s) = dump_flags s"
    and "g_ActiveConfig (Swap_prologue E s) = g_ActiveConfig s"
proof -
  have a: "\<not> m_last_frame_exported (Swap_aspect E s)"
    "m_last_refresh_rate (Swap_aspect E s) = GetTargetFractionalRefreshRate E"
    "dump_flags (Swap_aspect E s) = dump_flags s"
    "g_ActiveConfig (Swap_aspect E s) = g_ActiveConfig s"
    using assms by (simp_all add: Swap_aspect_def Let_def emit_def dump_flags_def)
  show "dump_flags (Swap_prologue E s) = dump_flags s"
    and "g_ActiveConfig (Swap_prologue E s) = g_ActiveConfig s"
    using a by (simp_all add: Swap_prologue_def FlushFrameDump_not_exported Swap_refresh_rate_def)
qed

lemma Swap_prologue_hands_over:
  assumes "m_last_frame_exported s"
    and "dump_flags s = (True, False, False, False, False, GetTargetFractionalRefreshRate E)"
    and "staging_map_ok E" and "\<not> bWii E"
    and "suggested_aspect_mode (g_ActiveConfig s) = Auto"
  shows "new_events s (Swap_prologue E s) =
           [EvResetFlushAspectRatioCount, EvStagingFlush, EvStagingMap True, EvThreadStart,
            EvFrameDumpStartSet, EvStagingUnmap]"
proof -
  have f: "m_DumpFrames s" "\<not> m_screenshot_request s" "\<not> m_frame_dump_thread_running s"
    "\<not> m_frame_dump_thread_joinable s" "\<not> m_frame_dump_frame_running s"
    "m_last_refresh_rate s = GetTargetFractionalRefreshRate E"
    using assms(2) by (simp_all add: dump_flags_def)
  show ?thesis
    using assms(1,3,4,5) f
    by (simp add: Swap_prologue_def Swap_aspect_def FlushFrameDump_eq FlushFrameDump_encode_def
        FinishFrameData_def DumpFrameData_def IsFrameDumping_def Swap_refresh_rate_def Let_def
        emit_def new_events_def)
qed

lemma new_events_after_emit:
  "length (trace s) \<le> length (trace s') \<Longrightarrow>
   new_events s ((emit es s')\<lparr>m_last_xfb_width := a, m_last_xfb_height := b\<rparr>) = new_events s s' @ es"
  "length (trace s) \<le> length (trace s') \<Longrightarrow> new_events s (emit es s') = new_events s s' @ es"
  by (simp_all add: new_events_def emit_def)

lemma Swap_prologue_length: "length (trace s) \<le> length (trace (Swap_prologue E s))"
  using Swap_prologue_ext [of s E] by (auto simp add: extends_by_def)

lemma s_frame_queued_state:
  "m_last_frame_exported s_frame_queued"
  "dump_flags s_frame_queued = (True, False, False, False, False, 60)"
  "suggested_aspect_mode (g_ActiveConfig s_frame_queued) = Auto"
  "m_last_xfb_id s_frame_queued = 7"
proof -
  let ?s1 = "s0\<lparr>m_DumpFrames := True\<rparr>"
  let ?e = "\<lparr>entry_id = 7, native_width = 640, texture = 1,
             texture_config = \<lparr>cfg_width = 640, cfg_height = 480\<rparr>\<rparr>"
  let ?p = "emit [EvGetXFBTexture 4096 640 480] (Swap_prologue E0 ?s1)"
  have e: "xfb_entry E0 = Some ?e" by (simp add: E0_def)
  have id: "entry_id ?e \<noteq> m_last_xfb_id ?s1" by (simp add: s0_def)
  have n: "(4096 :: u32) \<noteq> 0" "(640 :: u32) \<noteq> 0" "(480 :: u32) \<noteq> 0" by simp_all
  have sq: "s_frame_queued =
      (Swap_present K0 E0 ?e 640 640 0 ?p)
        \<lparr>m_last_xfb_width := (if (640 :: u32) < 1 \<or> MAX_XFB_WIDTH K0 < 640 then MAX_XFB_WIDTH K0 else 640),
         m_last_xfb_height := (if (480 :: u32) < 1 \<or> MAX_XFB_HEIGHT K0 < 480 then MAX_XFB_HEIGHT K0 else 480)\<rparr>"
    unfolding s_frame_queued_def
    by (rule Swap_new_frame [OF n(1) n(2) n(2) n(3) e id])
  have idle: "\<not> m_last_frame_exported ?s1" "m_last_refresh_rate ?s1 = GetTargetFractionalRefreshRate E0"
    by (simp_all add: s0_def E0_def)
  have dp: "dump_flags ?p = (True, False, False, False, False, 60)"
    using Swap_prologue_idle(1) [OF idle] by (simp add: dump_flags_emit) (simp add: dump_flags_def s0_def)
  then have dumping: "IsFrameDumping ?p"
    by (simp add: IsFrameDumping_dump_flags)
  note sp = Swap_present_when_dumping [OF dumping, of K0 E0 ?e 640 640 0]
  show "m_last_frame_exported s_frame_queued"
    using sp(2) unfolding sq by (simp add: queued_frame_def)
  show "m_last_xfb_id s_frame_queued = 7"
    using sp(2) unfolding sq by (simp add: queued_frame_def)
  show "dump_flags s_frame_queued = (True, False, False, False, False, 60)"
    using sp(1) dp unfolding sq by (simp add: dump_flags_def)
  show "suggested_aspect_mode (g_ActiveConfig s_frame_queued) = Auto"
    using sp(3) unfolding sq by (simp add: E0_def cfg0_def)
qed

text \<open>
  C10, as stated, fails. After a presented frame with frame dumping on, a call of
  \<open>Swap\<close> with \<open>xfbAddr = 0\<close> does more than the backend \<open>Flush\<close>: its \<open>FlushFrameDump\<close>
  maps the queued readback, starts the frame-dump worker thread and hands it the
  frame.
\<close>

theorem C10_counterexample:
  "new_events s_frame_queued (Swap K0 E0 0 640 640 480 0 s_frame_queued) =
     [EvResetFlushAspectRatioCount, EvStagingFlush, EvStagingMap True, EvThreadStart,
      EvFrameDumpStartSet, EvStagingUnmap, EvFlush]"
proof -
  have h: "new_events s_frame_queued (Swap_prologue E0 s_frame_queued) =
           [EvResetFlushAspectRatioCount, EvStagingFlush, EvStagingMap True, EvThreadStart,
            EvFrameDumpStartSet, EvStagingUnmap]"
    by (rule Swap_prologue_hands_over) (simp_all add: s_frame_queued_state, simp_all add: E0_def)
  have "Swap K0 E0 0 640 640 480 0 s_frame_queued = emit [EvFlush] (Swap_prologue E0 s_frame_queued)"
    by (rule Swap_zero) simp
  then show ?thesis
    by (simp add: new_events_after_emit(2) [OF Swap_prologue_length] h)
qed

text \<open>
  C1, as stated, fails. After a presented frame with frame dumping on, a call of
  \<open>Swap\<close> with non-zero arguments that resolves to the same cache entry does more than
  a flush: its \<open>FlushFrameDump\<close> maps the queued readback, starts the frame-dump worker
  thread and hands it the frame.
\<close>

theorem C1_counterexample:
  "xfb_entry E0 = Some \<lparr>entry_id = 7, native_width = 640, texture = 1,
                        texture_config = \<lparr>cfg_width = 640, cfg_height = 480\<rparr>\<rparr>
   \<and> m_last_xfb_id s_frame_queued = 7
   \<and> new_events s_frame_queued (Swap K0 E0 4096 640 640 480 0 s_frame_queued) =
       [EvResetFlushAspectRatioCount, EvStagingFlush, EvStagingMap True, EvThreadStart,
        EvFrameDumpStartSet, EvStagingUnmap, EvGetXFBTexture 4096 640 480, EvFlush]"
proof -
  let ?e = "\<lparr>entry_id = 7, native_width = 640, texture = 1,
             texture_config = \<lparr>cfg_width = 640, cfg_height = 480\<rparr>\<rparr>"
  have h: "new_events s_frame_queued (Swap_prologue E0 s_frame_queued) =
           [EvResetFlushAspectRatioCount, EvStagingFlush, EvStagingMap True, EvThreadStart,
            EvFrameDumpStartSet, EvStagingUnmap]"
    by (rule Swap_prologue_hands_over) (simp_all add: s_frame_queued_state, simp_all add: E0_def)
  have e: "xfb_entry E0 = Some ?e" by (simp add: E0_def)
  have id: "entry_id ?e = m_last_xfb_id s_frame_queued" by (simp add: s_frame_queued_state)
  have n: "(4096 :: u32) \<noteq> 0" "(640 :: u32) \<noteq> 0" "(480 :: u32) \<noteq> 0" by simp_all
  note sw = Swap_dedup [OF n(1) n(2) n(2) n(3) e id, of K0 0]
  show ?thesis
    unfolding sw
    by (simp add: new_events_after_emit(1) [OF Swap_prologue_length] h s_frame_queued_state e)
qed

end
